theory Spec2Isabelle
  imports Complex_Main
begin

section \<open>JavaScript values\<close>

text \<open>
  The server code in \<^verbatim>\<open>src/server/db.js\<close> is untyped JavaScript: every argument may be
  any value, and the checks of the code are truthiness tests, \<^verbatim>\<open>Number(...)\<close>
  conversions and template literals. The values are embedded as a datatype.

  A JavaScript number is a double. The code only compares numbers and renders them into
  strings, so a number is modelled as \<open>NaN\<close> or a finite rational (every finite double is
  one, and \<open>-0\<close> and \<open>0\<close> behave alike under every operation the code uses). The
  infinities are left out: neither JSON nor the key-value store can carry them.
\<close>

datatype jsnum = NaN | Fin rat

datatype jsval =
    Undefined
  | Null
  | Bool bool
  | Num jsnum
  | Str string
  | Arr "jsval list"
  | Obj "(string \<times> jsval) list"

text \<open>
  An error object as the code inspects it: \<^verbatim>\<open>e.name\<close>, \<^verbatim>\<open>e.message\<close> and
  \<^verbatim>\<open>e.statusCode\<close>.
\<close>

record js_error =
  name :: string
  message :: string
  statusCode :: jsval

text \<open>
  The two conversions between strings and numbers are the runtime's (\<^verbatim>\<open>Number(s)\<close> on a
  string, and the rendering of a number in a template literal); they are floating-point
  algorithms and are taken as parameters. So is \<^verbatim>\<open>Buffer.prototype.toString()\<close>, the
  runtime's decoding of a buffer of bytes into a string. The error that the blob store
  reports for a key that holds no object is the store's and is a parameter as well.
\<close>

record env =
  str_to_num :: "string \<Rightarrow> jsnum"
  num_to_str :: "jsnum \<Rightarrow> string"
  body_to_string :: "string \<Rightarrow> string"
  s3_missing :: js_error

text \<open>\<^verbatim>\<open>!v\<close> is \<open>\<not> truthy v\<close>.\<close>

fun truthy :: "jsval \<Rightarrow> bool" where
  "truthy Undefined = False"
| "truthy Null = False"
| "truthy (Bool b) = b"
| "truthy (Num NaN) = False"
| "truthy (Num (Fin r)) = (r \<noteq> 0)"
| "truthy (Str s) = (s \<noteq> [])"
| "truthy (Arr xs) = True"
| "truthy (Obj kvs) = True"

fun join_comma :: "string list \<Rightarrow> string" where
  "join_comma [] = []"
| "join_comma [s] = s"
| "join_comma (s # t # ss) = s @ '','' @ join_comma (t # ss)"

text \<open>\<^verbatim>\<open>`${v}`\<close>: the string conversion of a template literal.\<close>

fun to_string :: "env \<Rightarrow> jsval \<Rightarrow> string" where
  "to_string E Undefined = ''undefined''"
| "to_string E Null = ''null''"
| "to_string E (Bool b) = (if b then ''true'' else ''false'')"
| "to_string E (Num n) = num_to_str E n"
| "to_string E (Str s) = s"
| "to_string E (Arr xs) =
     join_comma (map (\<lambda>x. if x = Undefined \<or> x = Null then [] else to_string E x) xs)"
| "to_string E (Obj kvs) = ''[object Object]''"

text \<open>\<^verbatim>\<open>Number(v)\<close>.\<close>

fun to_number :: "env \<Rightarrow> jsval \<Rightarrow> jsnum" where
  "to_number E Undefined = NaN"
| "to_number E Null = Fin 0"
| "to_number E (Bool b) = Fin (if b then 1 else 0)"
| "to_number E (Num n) = n"
| "to_number E (Str s) = str_to_num E s"
| "to_number E (Arr xs) = str_to_num E (to_string E (Arr xs))"
| "to_number E (Obj kvs) = str_to_num E (to_string E (Obj kvs))"

text \<open>
  \<^verbatim>\<open>a >= n\<close> and \<^verbatim>\<open>i < a\<close> where one side is a number: the other side is converted
  to a number, and a comparison with \<open>NaN\<close> is false.
\<close>

fun num_ge :: "jsnum \<Rightarrow> jsnum \<Rightarrow> bool" where
  "num_ge (Fin a) (Fin b) = (b \<le> a)"
| "num_ge _ _ = False"

fun num_lt :: "jsnum \<Rightarrow> jsnum \<Rightarrow> bool" where
  "num_lt (Fin a) (Fin b) = (a < b)"
| "num_lt _ _ = False"

text \<open>
  An object that the code builds with an object literal, and an item of a table, is the
  list of its members. \<^verbatim>\<open>o[k]\<close> reads a member, \<^verbatim>\<open>{...o, k: v}\<close> sets one
  (an existing key keeps its place).
\<close>

type_synonym item = "(string \<times> jsval) list"

definition get_member :: "item \<Rightarrow> string \<Rightarrow> jsval" where
  "get_member kvs k = (case map_of kvs k of None \<Rightarrow> Undefined | Some v \<Rightarrow> v)"

fun set_member :: "string \<Rightarrow> jsval \<Rightarrow> item \<Rightarrow> item" where
  "set_member k v [] = [(k, v)]"
| "set_member k v ((k', v') # kvs) =
     (if k' = k then (k, v) # kvs else (k', v') # set_member k v kvs)"

text \<open>\<^verbatim>\<open>v.k\<close> on a value that is neither \<^verbatim>\<open>undefined\<close> nor \<^verbatim>\<open>null\<close>, for a name
  \<open>k\<close> that no prototype defines.\<close>

fun get_prop :: "jsval \<Rightarrow> string \<Rightarrow> jsval" where
  "get_prop (Obj kvs) k = get_member kvs k"
| "get_prop _ k = Undefined"

text \<open>\<^verbatim>\<open>s.includes(t)\<close> on strings.\<close>

fun starts_with :: "string \<Rightarrow> string \<Rightarrow> bool" where
  "starts_with s [] = True"
| "starts_with [] (c # t) = False"
| "starts_with (d # s) (c # t) = (d = c \<and> starts_with s t)"

fun str_includes :: "string \<Rightarrow> string \<Rightarrow> bool" where
  "str_includes [] t = (t = [])"
| "str_includes (c # s) t = (starts_with (c # s) t \<or> str_includes s t)"

text \<open>\<^verbatim>\<open>`${e}`\<close> on an error object (\<^verbatim>\<open>Error.prototype.toString\<close>), and \<^verbatim>\<open>new Error(m)\<close>.\<close>

definition error_to_string :: "js_error \<Rightarrow> string" where
  "error_to_string e =
     (if name e = [] then message e
      else if message e = [] then name e
      else name e @ '': '' @ message e)"

definition new_Error :: "string \<Rightarrow> js_error" where
  "new_Error m = \<lparr>name = ''Error'', message = m, statusCode = Undefined\<rparr>"

section \<open>Responses\<close>

text \<open>
  \<^verbatim>\<open>statusCodes\<close> and \<^verbatim>\<open>responseBuilder\<close> are modules outside \<^verbatim>\<open>db.js\<close>; a response is
  kept as the call that builds it, with the key into the status table.
\<close>

datatype status = Bad_Request | Not_Found | Conflict | Internal_Server_Error

datatype response = errorResponse status string | successResponse jsval

text \<open>An \<^verbatim>\<open>async\<close> function resolves with its return value or rejects with what it throws.\<close>

datatype 'a completion = Resolved 'a | Rejected js_error

section \<open>The collaborators\<close>

text \<open>
  The key-value store, the blob store, the cache, the connection registry and the logger
  are reached through calls. The world holds the three tables, the bucket, the cache's
  sequence counters, and the trace of every call the code has made to a collaborator
  in the order it was made (for a store call, its completion).
\<close>

datatype io_call =
    Ddb_transactWrite item item
  | Ddb_get jsval
  | Ddb_put item
  | Ddb_update jsval jsnum
  | S3_upload string string
  | S3_getObject string

datatype event =
    Io_resolved io_call
  | Io_rejected io_call js_error
  | Memcache_initTransactionLog jsval
  | Memcache_pushTransaction item
  | Memcache_transactionPersistedToDdb item
  | Memcache_transactionRolledBack item
  | Memcache_setBundleSeqNo jsval jsnum
  | Connections_push jsval jsval
  | Logger_info string
  | Logger_warn string

record world =
  databaseTable :: "jsval \<rightharpoonup> item"
  userDatabaseTable :: "jsval \<times> jsval \<rightharpoonup> item"
  transactionsTable :: "jsval \<times> jsval \<rightharpoonup> item"
  dbStatesBucket :: "string \<rightharpoonup> string"
  transactionLog :: "jsval \<rightharpoonup> nat"
  trace :: "event list"

definition emit :: "event \<Rightarrow> world \<Rightarrow> world" where
  "emit ev w = w\<lparr>trace := trace w @ [ev]\<rparr>"

subsection \<open>Store calls\<close>

text \<open>
  A store call is asynchronous and can fail for reasons of its own (network, throttling).
  The environment decides per call: the call works as its contract says (\<open>NoFault\<close>), it
  fails without having been applied (\<open>FailBefore\<close>), or it fails although the store has
  applied it (\<open>FailAfter\<close>, the false negative of a lost reply).
\<close>

datatype fault = NoFault | FailBefore js_error | FailAfter js_error

definition ConditionalCheckFailedException :: js_error where
  "ConditionalCheckFailedException =
     \<lparr>name = ''ConditionalCheckFailedException'',
      message = ''The conditional request failed'',
      statusCode = Num (Fin 400)\<rparr>"

definition TransactionCanceledException :: "bool \<Rightarrow> bool \<Rightarrow> js_error" where
  "TransactionCanceledException ok1 ok2 =
     \<lparr>name = ''TransactionCanceledException'',
      message = ''Transaction cancelled, please refer cancellation reasons for specific reasons [''
        @ (if ok1 then ''None'' else ''ConditionalCheckFailed'') @ '', ''
        @ (if ok2 then ''None'' else ''ConditionalCheckFailed'') @ '']'',
      statusCode = Num (Fin 400)\<rparr>"

text \<open>
  A guarded write: \<open>cond\<close> is the value of the condition expression on the stored data,
  \<open>e_cond\<close> the error of a failed condition, \<open>old\<close> and \<open>new\<close> the stored data without
  and with the write.
\<close>

definition conditional_write ::
  "fault \<Rightarrow> bool \<Rightarrow> js_error \<Rightarrow> 'a \<Rightarrow> 'a \<Rightarrow> js_error option \<times> 'a" where
  "conditional_write f cond e_cond old new =
     (case f of
        FailBefore e \<Rightarrow> (Some e, old)
      | FailAfter e \<Rightarrow> (Some e, if cond then new else old)
      | NoFault \<Rightarrow> if cond then (None, new) else (Some e_cond, old))"

definition settle :: "io_call \<Rightarrow> js_error option \<Rightarrow> world \<Rightarrow> world" where
  "settle c r w = emit (case r of None \<Rightarrow> Io_resolved c | Some e \<Rightarrow> Io_rejected c e) w"

text \<open>
  An attribute of a stored item, as a condition expression sees it (an
  \<^verbatim>\<open>undefined\<close> member of an item is not stored).
\<close>

definition attribute :: "item option \<Rightarrow> string \<Rightarrow> jsval option" where
  "attribute stored a =
     (case stored of
        None \<Rightarrow> None
      | Some it \<Rightarrow> if get_member it a = Undefined then None else Some (get_member it a))"

text \<open>
  \<^verbatim>\<open>transactWrite\<close> of \<^verbatim>\<open>createDatabase\<close>: two puts, each with
  \<^verbatim>\<open>attribute_not_exists\<close> on the hash key of its table. Every stored item carries its
  key, so the condition says that the table holds no item under the key of the new one.
\<close>

definition ddb_transactWrite :: "world \<Rightarrow> fault \<Rightarrow> item \<Rightarrow> item \<Rightarrow> js_error option \<times> world" where
  "ddb_transactWrite w f database userDatabase =
     (let dbKey = get_member database ''database-id'';
          udKey = (get_member userDatabase ''user-id'', get_member userDatabase ''database-name-hash'');
          ok1 = (databaseTable w dbKey = None);
          ok2 = (userDatabaseTable w udKey = None);
          (r, (dt, ut)) = conditional_write f (ok1 \<and> ok2) (TransactionCanceledException ok1 ok2)
             (databaseTable w, userDatabaseTable w)
             ((databaseTable w)(dbKey \<mapsto> database), (userDatabaseTable w)(udKey \<mapsto> userDatabase))
      in (r, settle (Ddb_transactWrite database userDatabase) r
               (w\<lparr>databaseTable := dt, userDatabaseTable := ut\<rparr>)))"

text \<open>\<^verbatim>\<open>get\<close> on the database table.\<close>

definition ddb_get :: "world \<Rightarrow> fault \<Rightarrow> jsval \<Rightarrow> (js_error + item option) \<times> world" where
  "ddb_get w f dbId =
     (case f of
        NoFault \<Rightarrow> (Inr (databaseTable w dbId), settle (Ddb_get dbId) None w)
      | FailBefore e \<Rightarrow> (Inl e, settle (Ddb_get dbId) (Some e) w)
      | FailAfter e \<Rightarrow> (Inl e, settle (Ddb_get dbId) (Some e) w))"

text \<open>
  \<^verbatim>\<open>put\<close> on the transactions table, whose key is the pair of \<^verbatim>\<open>database-id\<close> and
  \<^verbatim>\<open>sequence-no\<close>; \<open>cond\<close> is the condition expression, read on the item stored in
  the slot.
\<close>

definition slot_of :: "item \<Rightarrow> jsval \<times> jsval" where
  "slot_of it = (get_member it ''database-id'', get_member it ''sequence-no'')"

definition ddb_put :: "world \<Rightarrow> fault \<Rightarrow> (item option \<Rightarrow> bool) \<Rightarrow> item \<Rightarrow> js_error option \<times> world" where
  "ddb_put w f cond it =
     (let (r, tt) = conditional_write f (cond (transactionsTable w (slot_of it))) ConditionalCheckFailedException
             (transactionsTable w) ((transactionsTable w)(slot_of it \<mapsto> it))
      in (r, settle (Ddb_put it) r (w\<lparr>transactionsTable := tt\<rparr>)))"

text \<open>
  \<^verbatim>\<open>update\<close> of \<^verbatim>\<open>bundleTransactionLog\<close>:
  \<^verbatim>\<open>set #bundleSeqNo = :bundleSeqNo\<close> under
  \<^verbatim>\<open>attribute_not_exists(#bundleSeqNo) or #bundleSeqNo < :bundleSeqNo\<close>.
  The store compares a stored number with a number; a stored value of another type is
  not less than a number. An update of a key that holds no item creates the item.
\<close>

definition ddb_less :: "jsval \<Rightarrow> jsnum \<Rightarrow> bool" where
  "ddb_less v n = (case v of Num m \<Rightarrow> num_lt m n | _ \<Rightarrow> False)"

definition ddb_update :: "world \<Rightarrow> fault \<Rightarrow> jsval \<Rightarrow> jsnum \<Rightarrow> js_error option \<times> world" where
  "ddb_update w f databaseId bundleSeqNo =
     (let stored = databaseTable w databaseId;
          cond = (case attribute stored ''bundle-seq-no'' of
                    None \<Rightarrow> True
                  | Some v \<Rightarrow> ddb_less v bundleSeqNo);
          it = (case stored of None \<Rightarrow> [(''database-id'', databaseId)] | Some it \<Rightarrow> it);
          (r, dt) = conditional_write f cond ConditionalCheckFailedException
             (databaseTable w)
             ((databaseTable w)(databaseId \<mapsto> set_member ''bundle-seq-no'' (Num bundleSeqNo) it))
      in (r, settle (Ddb_update databaseId bundleSeqNo) r (w\<lparr>databaseTable := dt\<rparr>)))"

text \<open>The blob store: \<^verbatim>\<open>upload\<close> has no condition, \<^verbatim>\<open>getObject\<close> returns the body.\<close>

definition s3_upload :: "world \<Rightarrow> fault \<Rightarrow> string \<Rightarrow> string \<Rightarrow> js_error option \<times> world" where
  "s3_upload w f k body =
     (let (r, b) = conditional_write f True ConditionalCheckFailedException
             (dbStatesBucket w) ((dbStatesBucket w)(k \<mapsto> body))
      in (r, settle (S3_upload k body) r (w\<lparr>dbStatesBucket := b\<rparr>)))"

definition s3_getObject :: "env \<Rightarrow> world \<Rightarrow> fault \<Rightarrow> string \<Rightarrow> (js_error + string) \<times> world" where
  "s3_getObject E w f k =
     (let r = (case f of
                 NoFault \<Rightarrow> (case dbStatesBucket w k of None \<Rightarrow> Inl (s3_missing E) | Some body \<Rightarrow> Inr body)
               | FailBefore e \<Rightarrow> Inl e
               | FailAfter e \<Rightarrow> Inl e)
      in (r, settle (S3_getObject k) (case r of Inl e \<Rightarrow> Some e | Inr body \<Rightarrow> None) w))"

subsection \<open>The cache (Sequencer)\<close>

text \<open>
  Modelled from the spec: \<^verbatim>\<open>memcache.js\<close> is not among the sources. The spec gives the
  cache a per-database sequence counter: \<^verbatim>\<open>initTransactionLog\<close> starts an empty log,
  \<^verbatim>\<open>pushTransaction\<close> assigns the next sequence number and returns the transaction with
  its \<^verbatim>\<open>sequence-no\<close>, all synchronously; the first number of a new database is 1 (the
  scenario of the spec). The status updates and \<^verbatim>\<open>setBundleSeqNo\<close> do not touch the
  counter and are kept as calls in the trace. What \<^verbatim>\<open>pushTransaction\<close> does for a
  database whose log was never initialised is not said; here it throws.
\<close>

definition initial_sequence_no :: nat where
  "initial_sequence_no = 1"

definition memcache_initTransactionLog :: "world \<Rightarrow> jsval \<Rightarrow> world" where
  "memcache_initTransactionLog w dbId =
     emit (Memcache_initTransactionLog dbId)
       (w\<lparr>transactionLog := (transactionLog w)(dbId \<mapsto> initial_sequence_no)\<rparr>)"

definition no_transaction_log :: js_error where
  "no_transaction_log =
     \<lparr>name = ''TypeError'', message = ''no transaction log'', statusCode = Undefined\<rparr>"

definition memcache_pushTransaction :: "world \<Rightarrow> item \<Rightarrow> (js_error + item) \<times> world" where
  "memcache_pushTransaction w transaction =
     (let dbId = get_member transaction ''database-id'' in
      case transactionLog w dbId of
        None \<Rightarrow> (Inl no_transaction_log, w)
      | Some n \<Rightarrow>
          (let transactionWithSequenceNo = set_member ''sequence-no'' (Num (Fin (of_nat n))) transaction
           in (Inr transactionWithSequenceNo,
               emit (Memcache_pushTransaction transactionWithSequenceNo)
                 (w\<lparr>transactionLog := (transactionLog w)(dbId \<mapsto> Suc n)\<rparr>))))"

text \<open>The other calls to the cache and to the connection registry are kept in the trace.\<close>

definition memcache_setBundleSeqNo :: "world \<Rightarrow> jsval \<Rightarrow> jsnum \<Rightarrow> world" where
  "memcache_setBundleSeqNo w databaseId bundleSeqNo = emit (Memcache_setBundleSeqNo databaseId bundleSeqNo) w"

section \<open>The code of db.js\<close>

definition getS3DbStateKey :: "env \<Rightarrow> jsval \<Rightarrow> jsval \<Rightarrow> string" where
  "getS3DbStateKey E databaseId bundleSeqNo = to_string E databaseId @ ''/'' @ to_string E bundleSeqNo"

subsection \<open>createDatabase\<close>

definition createDatabase ::
  "world \<Rightarrow> fault \<Rightarrow> jsval \<Rightarrow> jsval \<Rightarrow> jsval \<Rightarrow> jsval \<Rightarrow> jsval \<Rightarrow> jsval \<Rightarrow> response \<times> world" where
  "createDatabase w f userId dbNameHash dbId encryptedDbName encryptedDbKey encryptedMetadata =
     (if \<not> truthy dbNameHash then (errorResponse Bad_Request ''Missing database name hash'', w)
      else if \<not> truthy dbId then (errorResponse Bad_Request ''Missing database id'', w)
      else if \<not> truthy encryptedDbName then (errorResponse Bad_Request ''Missing database name'', w)
      else if \<not> truthy encryptedDbKey then (errorResponse Bad_Request ''Missing database key'', w)
      else
        (let database = [(''database-id'', dbId), (''owner-id'', userId),
                         (''database-name'', encryptedDbName), (''metadata'', encryptedMetadata)];
             userDatabase = [(''user-id'', userId), (''database-name-hash'', dbNameHash),
                             (''database-id'', dbId), (''encrypted-db-key'', encryptedDbKey)]
         in case ddb_transactWrite w f database userDatabase of
              (None, w1) \<Rightarrow> (successResponse (Str ''Success!''), memcache_initTransactionLog w1 dbId)
            | (Some e, w1) \<Rightarrow>
                (if message e \<noteq> [] \<and> str_includes (message e) ''ConditionalCheckFailed''
                 then (errorResponse Conflict ''Database already exists'', w1)
                 else (errorResponse Internal_Server_Error
                         (''Failed to create database with '' @ error_to_string e), w1))))"

subsection \<open>findDatabaseByDatabaseId\<close>

text \<open>The result \<open>None\<close> is the \<^verbatim>\<open>null\<close> of the code; \<open>Inl\<close> is a rejected lookup.\<close>

definition findDatabaseByDatabaseId :: "world \<Rightarrow> fault \<Rightarrow> jsval \<Rightarrow> (js_error + item option) \<times> world" where
  "findDatabaseByDatabaseId w f dbId =
     (case ddb_get w f dbId of
        (Inl e, w1) \<Rightarrow> (Inl e, w1)
      | (Inr None, w1) \<Rightarrow> (Inr None, w1)
      | (Inr (Some it), w1) \<Rightarrow> (Inr (Some it), w1))"

subsection \<open>rollbackTransaction\<close>

definition transactionWithRollbackCommand :: "item \<Rightarrow> item" where
  "transactionWithRollbackCommand transaction =
     [(''database-id'', get_member transaction ''database-id''),
      (''sequence-no'', get_member transaction ''sequence-no''),
      (''item-id'', get_member transaction ''item-id''),
      (''command'', Str ''rollback'')]"

text \<open>\<^verbatim>\<open>attribute_not_exists(#databaseId) or command = :command\<close> on the item in the slot.\<close>

definition rollback_condition :: "item option \<Rightarrow> bool" where
  "rollback_condition stored = (stored = None \<or> attribute stored ''command'' = Some (Str ''rollback''))"

text \<open>
  The function returns nothing; the result is the world once its \<^verbatim>\<open>put\<close> has settled
  with the outcome \<open>f\<close>.
\<close>

definition rollbackTransaction :: "world \<Rightarrow> fault \<Rightarrow> item \<Rightarrow> world" where
  "rollbackTransaction w f transaction =
     (case ddb_put w f rollback_condition (transactionWithRollbackCommand transaction) of
        (None, w1) \<Rightarrow>
          emit (Memcache_transactionRolledBack (transactionWithRollbackCommand transaction)) w1
      | (Some e, w1) \<Rightarrow>
          (if name e = ''ConditionalCheckFailedException''
           then emit (Logger_info ''Failed to rollback -- transaction already persisted to disk'')
                  (emit (Memcache_transactionPersistedToDdb transaction) w1)
           else emit (Logger_warn (''Failed to rollback with '' @ error_to_string e)) w1))"

subsection \<open>putTransaction\<close>

text \<open>
  \<^verbatim>\<open>putTransaction\<close> runs without suspension up to its \<^verbatim>\<open>await\<close> of the \<^verbatim>\<open>put\<close>:
  the sequence number is assigned in this first part. The second part runs when the
  \<^verbatim>\<open>put\<close> has settled with the outcome \<open>f\<close>. Its result is what the function returns
  (\<open>Inr\<close>) or throws (\<open>Inl\<close>), the world at that moment, and the transaction for which
  \<^verbatim>\<open>rollbackTransaction\<close> has been called and not awaited, if any.
\<close>

definition slot_empty :: "item option \<Rightarrow> bool" where
  "slot_empty stored = (stored = None)"

definition putTransaction_settled ::
  "env \<Rightarrow> world \<Rightarrow> fault \<Rightarrow> item \<Rightarrow> item \<Rightarrow> jsval \<Rightarrow> (js_error + jsval) \<times> world \<times> item option" where
  "putTransaction_settled E w f transaction transactionWithSequenceNo userId =
     (case ddb_put w f slot_empty transactionWithSequenceNo of
        (None, w1) \<Rightarrow>
          (Inr (get_member transactionWithSequenceNo ''sequence-no''),
           emit (Connections_push (get_member transaction ''database-id'') userId)
             (emit (Memcache_transactionPersistedToDdb transactionWithSequenceNo) w1),
           None)
      | (Some e, w1) \<Rightarrow>
          (Inl (new_Error (''Failed with '' @ error_to_string e @ ''.'')),
           emit (Logger_warn (''Transaction ''
                   @ to_string E (get_member transactionWithSequenceNo ''sequence-no'')
                   @ '' failed with '' @ error_to_string e @ ''! Rolling back...'')) w1,
           Some transactionWithSequenceNo))"

definition putTransaction ::
  "env \<Rightarrow> world \<Rightarrow> fault \<Rightarrow> item \<Rightarrow> jsval \<Rightarrow> (js_error + jsval) \<times> world \<times> item option" where
  "putTransaction E w f transaction userId =
     (case memcache_pushTransaction w transaction of
        (Inl e, w1) \<Rightarrow> (Inl e, w1, None)
      | (Inr transactionWithSequenceNo, w1) \<Rightarrow>
          putTransaction_settled E w1 f transaction transactionWithSequenceNo userId)"

subsection \<open>doCommand\<close>

definition doCommand ::
  "env \<Rightarrow> world \<Rightarrow> fault \<Rightarrow> jsval \<Rightarrow> jsval \<Rightarrow> jsval \<Rightarrow> jsval \<Rightarrow> jsval \<Rightarrow> response \<times> world \<times> item option" where
  "doCommand E w f command userId databaseId key record =
     (if \<not> truthy databaseId then (errorResponse Bad_Request ''Missing database id'', w, None)
      else if \<not> truthy key then (errorResponse Bad_Request ''Missing item key'', w, None)
      else if \<not> truthy record then (errorResponse Bad_Request ''Missing record'', w, None)
      else
        (let transaction = [(''database-id'', databaseId), (''key'', key),
                            (''command'', command), (''record'', record)]
         in case putTransaction E w f transaction userId of
              (Inr sequenceNo, w1, rb) \<Rightarrow> (successResponse (Obj [(''sequenceNo'', sequenceNo)]), w1, rb)
            | (Inl e, w1, rb) \<Rightarrow>
                (errorResponse Internal_Server_Error
                   (''Failed to '' @ to_string E command @ '' with '' @ error_to_string e), w1, rb)))"

subsection \<open>batch\<close>

text \<open>
  \<^verbatim>\<open>operations\<close> is any value: \<^verbatim>\<open>operations.length\<close> and \<^verbatim>\<open>operations[i]\<close> are
  read on arrays, strings and objects; a read of a member of \<^verbatim>\<open>undefined\<close> or
  \<^verbatim>\<open>null\<close> throws a TypeError, which the function does not catch.
\<close>

fun js_length :: "jsval \<Rightarrow> jsval" where
  "js_length (Arr xs) = Num (Fin (of_nat (length xs)))"
| "js_length (Str s) = Num (Fin (of_nat (length s)))"
| "js_length (Obj kvs) = get_member kvs ''length''"
| "js_length v = Undefined"

fun js_index :: "env \<Rightarrow> jsval \<Rightarrow> nat \<Rightarrow> jsval" where
  "js_index E (Arr xs) i = (if i < length xs then xs ! i else Undefined)"
| "js_index E (Str s) i = (if i < length s then Str [s ! i] else Undefined)"
| "js_index E (Obj kvs) i = get_member kvs (num_to_str E (Fin (of_nat i)))"
| "js_index E v i = Undefined"

definition nullish :: "jsval \<Rightarrow> bool" where
  "nullish v = (v = Undefined \<or> v = Null)"

definition TypeError :: "string \<Rightarrow> jsval \<Rightarrow> js_error" where
  "TypeError k v =
     \<lparr>name = ''TypeError'',
      message = ''Cannot read property '' @ [CHR 0x27] @ k @ [CHR 0x27] @ '' of ''
                @ (if v = Null then ''null'' else ''undefined''),
      statusCode = Undefined\<rparr>"

function batch_loop ::
  "env \<Rightarrow> jsval \<Rightarrow> nat \<Rightarrow> jsval list \<Rightarrow> (response + jsval list) completion" where
  "batch_loop E operations i ops =
     (if num_lt (Fin (of_nat i)) (to_number E (js_length operations))
      then
        (if nullish (js_index E operations i)
         then Rejected (TypeError ''itemKey'' (js_index E operations i))
         else if \<not> truthy (get_prop (js_index E operations i) ''itemKey'')
         then Resolved (Inl (errorResponse Bad_Request
                (''Operation '' @ to_string E (Num (Fin (of_nat i))) @ '' missing item key'')))
         else if \<not> truthy (get_prop (js_index E operations i) ''encryptedItem'')
         then Resolved (Inl (errorResponse Bad_Request
                (''Operation '' @ to_string E (Num (Fin (of_nat i))) @ '' missing record'')))
         else if \<not> truthy (get_prop (js_index E operations i) ''command'')
         then Resolved (Inl (errorResponse Bad_Request
                (''Operation '' @ to_string E (Num (Fin (of_nat i))) @ '' missing command'')))
         else batch_loop E operations (Suc i)
                (ops @ [Obj [(''key'', get_prop (js_index E operations i) ''itemKey''),
                             (''record'', get_prop (js_index E operations i) ''encryptedItem''),
                             (''command'', get_prop (js_index E operations i) ''command'')]]))
      else Resolved (Inr ops))"
  by pat_completeness auto

termination batch_loop
proof (relation "measure (\<lambda>(E, operations, i, ops).
         (case to_number E (js_length operations) of NaN \<Rightarrow> 0 | Fin r \<Rightarrow> nat \<lceil>r\<rceil>) - i)", goal_cases)
  case 1
  show ?case by simp
next
  case (2 E operations i ops)
  show ?case
  proof (cases "to_number E (js_length operations)")
    case NaN
    with 2 show ?thesis by simp
  next
    case (Fin r)
    with 2 have "rat_of_int (int i) < r" by simp
    then have "int i < \<lceil>r\<rceil>" by (simp only: less_ceiling_iff)
    then have "i < nat \<lceil>r\<rceil>" by linarith
    with Fin show ?thesis by simp
  qed
qed

declare batch_loop.simps [simp del]

definition batch ::
  "env \<Rightarrow> world \<Rightarrow> fault \<Rightarrow> jsval \<Rightarrow> jsval \<Rightarrow> jsval \<Rightarrow> response completion \<times> world \<times> item option" where
  "batch E w f userId databaseId operations =
     (if \<not> truthy databaseId then (Resolved (errorResponse Bad_Request ''Missing database id''), w, None)
      else if \<not> truthy operations \<or> \<not> truthy (js_length operations)
      then (Resolved (errorResponse Bad_Request ''Missing operations''), w, None)
      else
        (case batch_loop E operations 0 [] of
           Rejected e \<Rightarrow> (Rejected e, w, None)
         | Resolved (Inl r) \<Rightarrow> (Resolved r, w, None)
         | Resolved (Inr ops) \<Rightarrow>
             (let transaction = [(''database-id'', databaseId), (''command'', Str ''Batch''),
                                 (''operations'', Arr ops)]
              in case putTransaction E w f transaction userId of
                   (Inr sequenceNo, w1, rb) \<Rightarrow>
                     (Resolved (successResponse (Obj [(''sequenceNo'', sequenceNo)])), w1, rb)
                 | (Inl e, w1, rb) \<Rightarrow>
                     (Resolved (errorResponse Internal_Server_Error
                        (''Failed to batch with '' @ error_to_string e)), w1, rb))))"

subsection \<open>bundleTransactionLog\<close>

text \<open>
  The three store calls of the function settle with the outcomes \<open>f_get\<close>, \<open>f_upload\<close>
  and \<open>f_update\<close>; the function is run from its call to its return.
\<close>

definition bundle_failed :: "js_error \<Rightarrow> response" where
  "bundle_failed e = errorResponse Internal_Server_Error (''Failed to bundle with '' @ error_to_string e)"

definition bundleTransactionLog ::
  "env \<Rightarrow> world \<Rightarrow> fault \<Rightarrow> fault \<Rightarrow> fault \<Rightarrow> jsval \<Rightarrow> jsval \<Rightarrow> string \<Rightarrow> response \<times> world" where
  "bundleTransactionLog E w f_get f_upload f_update databaseId seqNo bundle =
     (let bundleSeqNo = to_number E seqNo in
      if \<not> truthy (Num bundleSeqNo) \<and> bundleSeqNo \<noteq> Fin 0
      then (errorResponse Bad_Request ''Missing bundle sequence number'', w)
      else
        (case findDatabaseByDatabaseId w f_get databaseId of
           (Inl e, w1) \<Rightarrow> (bundle_failed e, w1)
         | (Inr None, w1) \<Rightarrow> (errorResponse Not_Found ''Database not found'', w1)
         | (Inr (Some database), w1) \<Rightarrow>
             (let lastBundleSeqNo = get_member database ''bundle-seq-no'' in
              if num_ge (to_number E lastBundleSeqNo) bundleSeqNo
              then (errorResponse Bad_Request ''Bundle sequence no must be greater than current bundle'', w1)
              else
                (let w2 = emit (Logger_info (''Uploading db '' @ to_string E databaseId
                                  @ [CHR 0x27] @ ''s state to S3 at bundle seq no ''
                                  @ to_string E (Num bundleSeqNo) @ ''...'')) w1
                 in case s3_upload w2 f_upload (getS3DbStateKey E databaseId (Num bundleSeqNo)) bundle of
                      (Some e, w3) \<Rightarrow> (bundle_failed e, w3)
                    | (None, w3) \<Rightarrow>
                        (let w4 = emit (Logger_info ''Setting bundle sequence number on user...'') w3
                         in case ddb_update w4 f_update databaseId bundleSeqNo of
                              (Some e, w5) \<Rightarrow> (bundle_failed e, w5)
                            | (None, w5) \<Rightarrow>
                                (successResponse (Obj []),
                                 memcache_setBundleSeqNo w5 databaseId bundleSeqNo))))))"

subsection \<open>getBundle\<close>

text \<open>
  The function returns \<^verbatim>\<open>result.Body.toString()\<close> (\<open>Inr\<close>) or an error response
  (\<open>Inl\<close>). The bucket holds the bytes that were uploaded; \<^verbatim>\<open>result.Body\<close> is a
  buffer of these bytes, and \<^verbatim>\<open>toString()\<close> decodes them into a string.
\<close>

definition getBundle :: "env \<Rightarrow> world \<Rightarrow> fault \<Rightarrow> jsval \<Rightarrow> jsval \<Rightarrow> (response + string) \<times> world" where
  "getBundle E w f databaseId bundleSeqNo =
     (if \<not> truthy bundleSeqNo \<and> bundleSeqNo \<noteq> Num (Fin 0)
      then (Inl (errorResponse Bad_Request ''Missing bundle sequence number''), w)
      else
        (case s3_getObject E w f (getS3DbStateKey E databaseId bundleSeqNo) of
           (Inr body, w1) \<Rightarrow> (Inr (body_to_string E body), w1)
         | (Inl e, w1) \<Rightarrow>
             (let statusCode = statusCode e; error = message e in
              if statusCode = Num (Fin 404) \<and> error = ''Not Found''
              then (Inl (errorResponse Not_Found (''Failed to query db state with '' @ error)), w1)
              else (Inl (errorResponse Internal_Server_Error
                      (''Failed to query db state with '' @ error)), w1))))"

section \<open>Interleaved commits\<close>

text \<open>
  The process runs one piece of code at a time and switches between calls only where a
  call awaits a store call. A commit call has two pieces, before and after the \<^verbatim>\<open>put\<close>
  of \<^verbatim>\<open>putTransaction\<close>; a rollback has one piece after its own \<^verbatim>\<open>put\<close>. A schedule
  is a list of events: a new call begins and runs to its first \<^verbatim>\<open>await\<close>, or the store
  call of a waiting task settles with some outcome and the task runs on.
\<close>

datatype caller = From_doCommand jsval | From_batch

datatype task =
    Await_put caller item item jsval
  | Await_rollback item

datatype call =
    DoCommand jsval jsval jsval jsval jsval
  | Batch jsval jsval jsval

datatype sched_event = Begin call | Settle nat fault

record loop_state =
  now :: world
  pending :: "task list"
  responses :: "response completion list"

definition begin_put :: "caller \<Rightarrow> env \<Rightarrow> world \<Rightarrow> item \<Rightarrow> jsval \<Rightarrow> (js_error + task) \<times> world" where
  "begin_put c E w transaction userId =
     (case memcache_pushTransaction w transaction of
        (Inl e, w1) \<Rightarrow> (Inl e, w1)
      | (Inr transactionWithSequenceNo, w1) \<Rightarrow>
          (Inr (Await_put c transaction transactionWithSequenceNo userId), w1))"

definition commit_response :: "env \<Rightarrow> caller \<Rightarrow> js_error + jsval \<Rightarrow> response" where
  "commit_response E c r =
     (case r of
        Inr sequenceNo \<Rightarrow> successResponse (Obj [(''sequenceNo'', sequenceNo)])
      | Inl e \<Rightarrow>
          errorResponse Internal_Server_Error
            (''Failed to '' @ (case c of From_doCommand command \<Rightarrow> to_string E command | From_batch \<Rightarrow> ''batch'')
             @ '' with '' @ error_to_string e))"

definition begin_call :: "env \<Rightarrow> world \<Rightarrow> call \<Rightarrow> (response completion + task) \<times> world" where
  "begin_call E w cl =
     (case cl of
        DoCommand command userId databaseId key record \<Rightarrow>
          (if \<not> truthy databaseId then (Inl (Resolved (errorResponse Bad_Request ''Missing database id'')), w)
           else if \<not> truthy key then (Inl (Resolved (errorResponse Bad_Request ''Missing item key'')), w)
           else if \<not> truthy record then (Inl (Resolved (errorResponse Bad_Request ''Missing record'')), w)
           else
             (case begin_put (From_doCommand command) E w
                     [(''database-id'', databaseId), (''key'', key),
                      (''command'', command), (''record'', record)] userId of
                (Inl e, w1) \<Rightarrow> (Inl (Resolved (commit_response E (From_doCommand command) (Inl e))), w1)
              | (Inr t, w1) \<Rightarrow> (Inr t, w1)))
      | Batch userId databaseId operations \<Rightarrow>
          (if \<not> truthy databaseId then (Inl (Resolved (errorResponse Bad_Request ''Missing database id'')), w)
           else if \<not> truthy operations \<or> \<not> truthy (js_length operations)
           then (Inl (Resolved (errorResponse Bad_Request ''Missing operations'')), w)
           else
             (case batch_loop E operations 0 [] of
                Rejected e \<Rightarrow> (Inl (Rejected e), w)
              | Resolved (Inl r) \<Rightarrow> (Inl (Resolved r), w)
              | Resolved (Inr ops) \<Rightarrow>
                  (case begin_put From_batch E w
                          [(''database-id'', databaseId), (''command'', Str ''Batch''),
                           (''operations'', Arr ops)] userId of
                     (Inl e, w1) \<Rightarrow> (Inl (Resolved (commit_response E From_batch (Inl e))), w1)
                   | (Inr t, w1) \<Rightarrow> (Inr t, w1)))))"

definition settle_task :: "env \<Rightarrow> world \<Rightarrow> fault \<Rightarrow> task \<Rightarrow> response completion list \<times> world \<times> task list" where
  "settle_task E w f t =
     (case t of
        Await_put c transaction transactionWithSequenceNo userId \<Rightarrow>
          (case putTransaction_settled E w f transaction transactionWithSequenceNo userId of
             (r, w1, rb) \<Rightarrow>
               ([Resolved (commit_response E c r)], w1,
                (case rb of None \<Rightarrow> [] | Some x \<Rightarrow> [Await_rollback x])))
      | Await_rollback transaction \<Rightarrow> ([], rollbackTransaction w f transaction, []))"

definition step :: "env \<Rightarrow> loop_state \<Rightarrow> sched_event \<Rightarrow> loop_state" where
  "step E s ev =
     (case ev of
        Begin cl \<Rightarrow>
          (case begin_call E (now s) cl of
             (Inl r, w1) \<Rightarrow> s\<lparr>now := w1, responses := responses s @ [r]\<rparr>
           | (Inr t, w1) \<Rightarrow> s\<lparr>now := w1, pending := pending s @ [t]\<rparr>)
      | Settle i f \<Rightarrow>
          (if i < length (pending s)
           then (case settle_task E (now s) f (pending s ! i) of
                   (rs, w1, ts) \<Rightarrow>
                     \<lparr>now = w1,
                      pending = take i (pending s) @ drop (Suc i) (pending s) @ ts,
                      responses = responses s @ rs\<rparr>)
           else s))"

definition run :: "env \<Rightarrow> loop_state \<Rightarrow> sched_event list \<Rightarrow> loop_state" where
  "run E s evs = foldl (step E) s evs"

section \<open>A runtime for the examples\<close>

text \<open>
  The examples below need a runtime to compute with. This one renders and reads integers
  in plain decimal, as JavaScript does for integers of magnitude below \<open>10^21\<close>; the
  examples stay within these. It is not the runtime on other numbers and strings.

  A string is kept as the bytes of its UTF-8 encoding. \<^verbatim>\<open>toString()\<close> on a buffer
  decodes UTF-8: a well-formed sequence of bytes is kept as it is, and every maximal
  ill-formed part is replaced by U+FFFD (the bytes EF BF BD). \<open>utf8_toString\<close> takes the
  number of continuation bytes still needed, the range allowed for the next one, the
  bytes of the sequence read so far, and the input.
\<close>

definition replacement_character :: string where
  "replacement_character = [CHR 0xEF, CHR 0xBF, CHR 0xBD]"

function utf8_toString :: "nat \<Rightarrow> nat \<Rightarrow> nat \<Rightarrow> string \<Rightarrow> string \<Rightarrow> string" where
  "utf8_toString needed lo hi seen [] = (if needed = 0 then [] else replacement_character)"
| "utf8_toString needed lo hi seen (b # bs) =
     (if needed = 0 then
        (if (of_char b :: nat) \<le> 0x7F then b # utf8_toString 0 0x80 0xBF [] bs
         else if 0xC2 \<le> (of_char b :: nat) \<and> (of_char b :: nat) \<le> 0xDF
         then utf8_toString 1 0x80 0xBF [b] bs
         else if 0xE0 \<le> (of_char b :: nat) \<and> (of_char b :: nat) \<le> 0xEF
         then utf8_toString 2 (if (of_char b :: nat) = 0xE0 then 0xA0 else 0x80)
                (if (of_char b :: nat) = 0xED then 0x9F else 0xBF) [b] bs
         else if 0xF0 \<le> (of_char b :: nat) \<and> (of_char b :: nat) \<le> 0xF4
         then utf8_toString 3 (if (of_char b :: nat) = 0xF0 then 0x90 else 0x80)
                (if (of_char b :: nat) = 0xF4 then 0x8F else 0xBF) [b] bs
         else replacement_character @ utf8_toString 0 0x80 0xBF [] bs)
      else if (of_char b :: nat) < lo \<or> hi < (of_char b :: nat)
      then replacement_character @ utf8_toString 0 0x80 0xBF [] (b # bs)
      else if needed = 1 then seen @ [b] @ utf8_toString 0 0x80 0xBF [] bs
      else utf8_toString (needed - 1) 0x80 0xBF (seen @ [b]) bs)"
  by pat_completeness auto

termination utf8_toString
  by (relation "measure (\<lambda>(needed, lo, hi, seen, bs). 2 * length bs + (if needed = 0 then 0 else 1))")
     auto

declare utf8_toString.simps [simp del]

fun digits :: "nat \<Rightarrow> string" where
  "digits n = (if n < 10 then [''0123456789'' ! n]
               else digits (n div 10) @ [''0123456789'' ! (n mod 10)])"

declare digits.simps [simp del]

definition decimal :: "jsnum \<Rightarrow> string" where
  "decimal n = (case n of NaN \<Rightarrow> ''NaN''
                | Fin r \<Rightarrow> (if r < 0 then ''-'' else []) @ digits (nat \<bar>\<lfloor>r\<rfloor>\<bar>))"

fun read_digits :: "string \<Rightarrow> nat \<Rightarrow> nat option" where
  "read_digits [] acc = Some acc"
| "read_digits (c # s) acc =
     (if c \<in> set ''0123456789''
      then read_digits s (10 * acc + (of_char c - 48))
      else None)"

definition read_decimal :: "string \<Rightarrow> jsnum" where
  "read_decimal s =
     (case s of
        [] \<Rightarrow> Fin 0
      | c # t \<Rightarrow>
          if c = CHR ''-'' \<and> t \<noteq> []
          then (case read_digits t 0 of None \<Rightarrow> NaN | Some n \<Rightarrow> Fin (- of_nat n))
          else (case read_digits s 0 of None \<Rightarrow> NaN | Some n \<Rightarrow> Fin (of_nat n)))"

definition NoSuchKey :: js_error where
  "NoSuchKey = \<lparr>name = ''NoSuchKey'', message = ''The specified key does not exist.'',
                statusCode = Num (Fin 404)\<rparr>"

definition node :: env where
  "node = \<lparr>str_to_num = read_decimal, num_to_str = decimal,
           body_to_string = utf8_toString 0 0x80 0xBF [], s3_missing = NoSuchKey\<rparr>"

definition empty_world :: world where
  "empty_world = \<lparr>databaseTable = Map.empty, userDatabaseTable = Map.empty,
                   transactionsTable = Map.empty, dbStatesBucket = Map.empty,
                   transactionLog = Map.empty, trace = []\<rparr>"

section \<open>Observations and examples\<close>

text \<open>The bundle sequence number that the database table holds for a database.\<close>

definition stored_bundle_seq_no :: "world \<Rightarrow> jsval \<Rightarrow> jsval" where
  "stored_bundle_seq_no w databaseId =
     (case databaseTable w databaseId of
        None \<Rightarrow> Undefined
      | Some database \<Rightarrow> get_member database ''bundle-seq-no'')"

text \<open>
  A sequence of calls of \<^verbatim>\<open>bundleTransactionLog\<close>, each with the outcomes of its
  three store calls and its arguments, run one after the other.
\<close>

type_synonym bundle_call = "fault \<times> fault \<times> fault \<times> jsval \<times> jsval \<times> string"

definition bundle_calls :: "env \<Rightarrow> world \<Rightarrow> bundle_call list \<Rightarrow> world" where
  "bundle_calls E w cs =
     foldl (\<lambda>w (f_get, f_upload, f_update, databaseId, seqNo, bundle).
              snd (bundleTransactionLog E w f_get f_upload f_update databaseId seqNo bundle)) w cs"


text \<open>The scenario of the spec: user U1 creates the database D1, then bundles it at 5.\<close>

definition world_D1 :: world where
  "world_D1 = snd (createDatabase empty_world NoFault (Str ''U1'') (Str ''H1'') (Str ''D1'')
                     (Str ''name'') (Str ''K1'') Undefined)"

definition world_D1_bundled :: world where
  "world_D1_bundled =
     snd (bundleTransactionLog node world_D1 NoFault NoFault NoFault (Str ''D1'') (Num (Fin 5)) ''snapshotA'')"

definition lost_reply :: js_error where
  "lost_reply = \<lparr>name = ''TimeoutError'', message = ''Connection timed out'', statusCode = Undefined\<rparr>"

definition world_D1_committed :: world where
  "world_D1_committed =
     fst (snd (doCommand node world_D1 (FailAfter lost_reply) (Str ''rollback'') (Str ''U1'') (Str ''D1'')
                 (Str ''k'') (Str ''r1'')))"

definition world_D1_inserted :: world where
  "world_D1_inserted =
     fst (snd (doCommand node world_D1 (FailAfter lost_reply) (Str ''Insert'') (Str ''U1'') (Str ''D1'')
                 (Str ''k'') (Str ''r1'')))"

definition inserted :: item where
  "inserted = [(''database-id'', Str ''D1''), (''key'', Str ''k''), (''command'', Str ''Insert''),
               (''record'', Str ''r1''), (''sequence-no'', Num (Fin 1))]"

fun assigned :: "jsval \<Rightarrow> event list \<Rightarrow> jsval list" where
  "assigned D [] = []"
| "assigned D (Memcache_pushTransaction t # evs) =
     (if get_member t ''database-id'' = D then get_member t ''sequence-no'' # assigned D evs
      else assigned D evs)"
| "assigned D (ev # evs) = assigned D evs"

definition two_commits :: "sched_event list" where
  "two_commits =
     [Begin (DoCommand (Str ''Insert'') (Str ''U1'') (Str ''D1'') (Str ''k'') (Str ''r1'')),
      Begin (Batch (Str ''U1'') (Str ''D1'')
        (Arr [Obj [(''itemKey'', Str ''k2''), (''encryptedItem'', Str ''r2''), (''command'', Str ''Insert'')],
              Obj [(''itemKey'', Str ''k''), (''encryptedItem'', Str ''r3''), (''command'', Str ''Update'')]])),
      Settle 1 NoFault,
      Settle 0 NoFault]"

section \<open>Basic facts\<close>

lemma emit_fields [simp]:
  "databaseTable (emit ev w) = databaseTable w"
  "userDatabaseTable (emit ev w) = userDatabaseTable w"
  "transactionsTable (emit ev w) = transactionsTable w"
  "dbStatesBucket (emit ev w) = dbStatesBucket w"
  "transactionLog (emit ev w) = transactionLog w"
  "trace (emit ev w) = trace w @ [ev]"
  by (simp_all add: emit_def)

lemma settle_fields [simp]:
  "databaseTable (settle c r w) = databaseTable w"
  "userDatabaseTable (settle c r w) = userDatabaseTable w"
  "transactionsTable (settle c r w) = transactionsTable w"
  "dbStatesBucket (settle c r w) = dbStatesBucket w"
  "transactionLog (settle c r w) = transactionLog w"
  by (simp_all add: settle_def)

lemma trace_settle [simp]:
  "trace (settle c None w) = trace w @ [Io_resolved c]"
  "trace (settle c (Some e) w) = trace w @ [Io_rejected c e]"
  by (simp_all add: settle_def)

lemma get_member_set_member [simp]: "get_member (set_member k v kvs) k = v"
  by (induction kvs) (auto simp: get_member_def)

lemma get_member_set_member_other [simp]: "k' \<noteq> k \<Longrightarrow> get_member (set_member k v kvs) k' = get_member kvs k'"
  by (induction kvs) (auto simp: get_member_def)

lemma conditional_write_None:
  "conditional_write f c e old new = (None, x) \<longleftrightarrow> f = NoFault \<and> c \<and> x = new"
  by (auto simp: conditional_write_def split: fault.splits)

lemma conditional_write_cases:
  "conditional_write f c e old new = (r, x) \<Longrightarrow> x = old \<or> (c \<and> x = new)"
  by (auto simp: conditional_write_def split: fault.splits if_splits)

lemma s3_upload_None:
  "s3_upload w f k body = (None, w') \<Longrightarrow> dbStatesBucket w' = (dbStatesBucket w)(k \<mapsto> body)"
  by (auto simp: s3_upload_def conditional_write_None split: prod.splits)

lemma s3_upload_frame:
  assumes "s3_upload w f k body = (r, w')"
  shows "databaseTable w' = databaseTable w" "userDatabaseTable w' = userDatabaseTable w"
    "transactionsTable w' = transactionsTable w" "transactionLog w' = transactionLog w"
  using assms by (auto simp: s3_upload_def split: prod.splits)

lemma ddb_update_frame:
  assumes "ddb_update w f d n = (r, w')"
  shows "dbStatesBucket w' = dbStatesBucket w" "userDatabaseTable w' = userDatabaseTable w"
    "transactionsTable w' = transactionsTable w" "transactionLog w' = transactionLog w"
  using assms by (auto simp: ddb_update_def Let_def split: prod.splits)

lemma findDatabaseByDatabaseId_frame:
  assumes "findDatabaseByDatabaseId w f d = (r, w')"
  shows "dbStatesBucket w' = dbStatesBucket w" "userDatabaseTable w' = userDatabaseTable w"
    "transactionsTable w' = transactionsTable w" "transactionLog w' = transactionLog w"
    "databaseTable w' = databaseTable w"
  using assms
  by (auto simp: findDatabaseByDatabaseId_def ddb_get_def split: prod.splits fault.splits sum.splits option.splits if_splits)

lemma findDatabaseByDatabaseId_found:
  "findDatabaseByDatabaseId w f d = (Inr r, w') \<Longrightarrow> r = databaseTable w d \<and> f = NoFault"
  by (auto simp: findDatabaseByDatabaseId_def ddb_get_def split: prod.splits fault.splits sum.splits option.splits if_splits)

lemma findDatabaseByDatabaseId_NoFault:
  "findDatabaseByDatabaseId w NoFault d = (Inr (databaseTable w d), settle (Ddb_get d) None w)"
  by (auto simp: findDatabaseByDatabaseId_def ddb_get_def split: option.splits)

text \<open>The guarded update either leaves the table as it is or raises the stored number.\<close>

lemma ddb_update_raises:
  assumes "ddb_update w f d n = (r, w')"
    and "stored_bundle_seq_no w D = Num (Fin N)"
  shows "\<exists>N'. N \<le> N' \<and> stored_bundle_seq_no w' D = Num (Fin N')"
proof (cases "databaseTable w' = databaseTable w")
  case True
  with assms(2) show ?thesis by (auto simp: stored_bundle_seq_no_def)
next
  case False
  with assms(1) have cond: "(case attribute (databaseTable w d) ''bundle-seq-no'' of None \<Rightarrow> True | Some v \<Rightarrow> ddb_less v n)"
    and upd: "databaseTable w' = (databaseTable w)(d \<mapsto> set_member ''bundle-seq-no'' (Num n)
                (case databaseTable w d of None \<Rightarrow> [(''database-id'', d)] | Some it \<Rightarrow> it))"
    by (auto simp: ddb_update_def Let_def split: prod.splits dest!: conditional_write_cases)
  show ?thesis
  proof (cases "d = D")
    case True
    with assms(2) cond obtain M where "n = Fin M" "N < M"
      by (cases n) (auto simp: stored_bundle_seq_no_def attribute_def ddb_less_def split: option.splits if_splits)
    with True upd show ?thesis by (auto simp: stored_bundle_seq_no_def)
  next
    case False
    with upd assms(2) show ?thesis by (auto simp: stored_bundle_seq_no_def)
  qed
qed

lemma bundle_databaseTable:
  assumes "bundleTransactionLog E w f1 f2 f3 d seqNo B = (resp, w')"
  shows "databaseTable w' = databaseTable w
       \<or> (\<exists>w4 r w5. databaseTable w4 = databaseTable w
             \<and> ddb_update w4 f3 d (to_number E seqNo) = (r, w5)
             \<and> databaseTable w' = databaseTable w5)"
proof (cases "\<not> truthy (Num (to_number E seqNo)) \<and> to_number E seqNo \<noteq> Fin 0")
  case True
  with assms show ?thesis by (simp add: bundleTransactionLog_def)
next
  case valid: False
  obtain r1 w1 where l: "findDatabaseByDatabaseId w f1 d = (r1, w1)" by (cases "findDatabaseByDatabaseId w f1 d")
  then have t1: "databaseTable w1 = databaseTable w" by (rule findDatabaseByDatabaseId_frame(5))
  show ?thesis
  proof (cases "\<exists>database. r1 = Inr (Some database)
                  \<and> \<not> num_ge (to_number E (get_member database ''bundle-seq-no'')) (to_number E seqNo)")
    case False
    with assms valid l t1 show ?thesis
      by (auto simp: bundleTransactionLog_def Let_def split: sum.splits option.splits if_splits)
  next
    case True
    then obtain database where r1: "r1 = Inr (Some database)"
      and gt: "\<not> num_ge (to_number E (get_member database ''bundle-seq-no'')) (to_number E seqNo)" by blast
    define w2 where "w2 = emit (Logger_info (''Uploading db '' @ to_string E d
                                  @ [CHR 0x27] @ ''s state to S3 at bundle seq no ''
                                  @ to_string E (Num (to_number E seqNo)) @ ''...'')) w1"
    obtain r3 w3 where u: "s3_upload w2 f2 (getS3DbStateKey E d (Num (to_number E seqNo))) B = (r3, w3)"
      by (cases "s3_upload w2 f2 (getS3DbStateKey E d (Num (to_number E seqNo))) B")
    then have t3: "databaseTable w3 = databaseTable w" using t1 by (simp add: s3_upload_frame(1) w2_def)
    show ?thesis
    proof (cases r3)
      case (Some e)
      with assms valid l r1 gt u t3 show ?thesis
        by (simp add: bundleTransactionLog_def Let_def w2_def)
    next
      case None
      define w4 where "w4 = emit (Logger_info ''Setting bundle sequence number on user...'') w3"
      obtain r5 w5 where d5: "ddb_update w4 f3 d (to_number E seqNo) = (r5, w5)"
        by (cases "ddb_update w4 f3 d (to_number E seqNo)")
      have "databaseTable w' = databaseTable w5"
        using assms valid l r1 gt u None d5
        by (cases r5) (auto simp: bundleTransactionLog_def Let_def w2_def w4_def memcache_setBundleSeqNo_def)
      moreover have "databaseTable w4 = databaseTable w" using t3 by (simp add: w4_def)
      ultimately show ?thesis using d5 by blast
    qed
  qed
qed

lemma bundle_raises:
  assumes "stored_bundle_seq_no w D = Num (Fin N)"
  shows "\<exists>N'. N \<le> N' \<and> stored_bundle_seq_no (snd (bundleTransactionLog E w f1 f2 f3 d seqNo B)) D = Num (Fin N')"
proof -
  obtain resp w' where b: "bundleTransactionLog E w f1 f2 f3 d seqNo B = (resp, w')"
    by (cases "bundleTransactionLog E w f1 f2 f3 d seqNo B")
  from bundle_databaseTable [OF b] show ?thesis
  proof
    assume "databaseTable w' = databaseTable w"
    with assms b show ?thesis by (auto simp: stored_bundle_seq_no_def)
  next
    assume "\<exists>w4 r w5. databaseTable w4 = databaseTable w
             \<and> ddb_update w4 f3 d (to_number E seqNo) = (r, w5)
             \<and> databaseTable w' = databaseTable w5"
    then obtain w4 r w5 where w4: "databaseTable w4 = databaseTable w"
      and u: "ddb_update w4 f3 d (to_number E seqNo) = (r, w5)"
      and w5: "databaseTable w' = databaseTable w5" by blast
    from w4 assms have "stored_bundle_seq_no w4 D = Num (Fin N)" by (simp add: stored_bundle_seq_no_def)
    from ddb_update_raises [OF u this] obtain N' where "N \<le> N'" "stored_bundle_seq_no w5 D = Num (Fin N')"
      by blast
    with w5 b show ?thesis by (auto simp: stored_bundle_seq_no_def)
  qed
qed

lemma bundle_calls_raise:
  assumes "stored_bundle_seq_no w D = Num (Fin N)"
  shows "\<exists>N'. N \<le> N' \<and> stored_bundle_seq_no (bundle_calls E w cs) D = Num (Fin N')"
  using assms
proof (induction cs arbitrary: w N)
  case Nil
  then show ?case by (auto simp: bundle_calls_def)
next
  case (Cons c cs)
  obtain f1 f2 f3 d seqNo B where c: "c = (f1, f2, f3, d, seqNo, B)" by (cases c)
  from bundle_raises [OF Cons.prems, of E f1 f2 f3 d seqNo B]
  obtain N1 where N1: "N \<le> N1"
    "stored_bundle_seq_no (snd (bundleTransactionLog E w f1 f2 f3 d seqNo B)) D = Num (Fin N1)" by blast
  from Cons.IH [OF N1(2)] obtain N' where "N1 \<le> N'"
    "stored_bundle_seq_no (bundle_calls E (snd (bundleTransactionLog E w f1 f2 f3 d seqNo B)) cs) D = Num (Fin N')"
    by blast
  with N1(1) c show ?case by (auto simp: bundle_calls_def intro: order_trans)
qed

lemma bundle_rejected:
  assumes "stored_bundle_seq_no w D = Num (Fin N)" and "to_number E seqNo = Fin M" and "M \<le> N"
  shows "bundleTransactionLog E w NoFault f2 f3 D seqNo B =
           (errorResponse Bad_Request ''Bundle sequence no must be greater than current bundle'',
            settle (Ddb_get D) None w)"
proof -
  from assms(1) obtain database where d: "databaseTable w D = Some database"
    "get_member database ''bundle-seq-no'' = Num (Fin N)"
    by (auto simp: stored_bundle_seq_no_def split: option.splits)
  with assms(2,3) show ?thesis
    by (simp add: bundleTransactionLog_def findDatabaseByDatabaseId_NoFault)
qed

lemma bundle_success_stages:
  assumes "bundleTransactionLog E w f1 f2 f3 D seqNo B = (successResponse r, w')"
  obtains w2 w3 w5 where
    "to_number E seqNo \<noteq> NaN"
    "databaseTable w2 = databaseTable w" "dbStatesBucket w2 = dbStatesBucket w"
    "s3_upload w2 f2 (getS3DbStateKey E D (Num (to_number E seqNo))) B = (None, w3)"
    "ddb_update (emit (Logger_info ''Setting bundle sequence number on user...'') w3) f3 D (to_number E seqNo) = (None, w5)"
    "w' = memcache_setBundleSeqNo w5 D (to_number E seqNo)"
proof -
  have valid: "\<not> (\<not> truthy (Num (to_number E seqNo)) \<and> to_number E seqNo \<noteq> Fin 0)"
    using assms by (auto simp: bundleTransactionLog_def Let_def split: if_splits)
  then have nan: "to_number E seqNo \<noteq> NaN" by auto
  obtain r1 w1 where l: "findDatabaseByDatabaseId w f1 D = (r1, w1)" by (cases "findDatabaseByDatabaseId w f1 D")
  then have t1: "databaseTable w1 = databaseTable w" "dbStatesBucket w1 = dbStatesBucket w"
    by (simp_all add: findDatabaseByDatabaseId_frame)
  have "\<exists>database. r1 = Inr (Some database)
                  \<and> \<not> num_ge (to_number E (get_member database ''bundle-seq-no'')) (to_number E seqNo)"
    using assms valid l
    by (auto simp: bundleTransactionLog_def Let_def bundle_failed_def split: sum.splits option.splits if_splits)
  then obtain database where r1: "r1 = Inr (Some database)"
      and gt: "\<not> num_ge (to_number E (get_member database ''bundle-seq-no'')) (to_number E seqNo)" by blast
  define w2 where "w2 = emit (Logger_info (''Uploading db '' @ to_string E D
                                  @ [CHR 0x27] @ ''s state to S3 at bundle seq no ''
                                  @ to_string E (Num (to_number E seqNo)) @ ''...'')) w1"
  obtain r3 w3 where u: "s3_upload w2 f2 (getS3DbStateKey E D (Num (to_number E seqNo))) B = (r3, w3)"
    by (cases "s3_upload w2 f2 (getS3DbStateKey E D (Num (to_number E seqNo))) B")
  have r3: "r3 = None"
    using assms valid l r1 gt u
    by (cases r3) (simp_all add: bundleTransactionLog_def Let_def w2_def bundle_failed_def)
  obtain r5 w5 where d5: "ddb_update (emit (Logger_info ''Setting bundle sequence number on user...'') w3) 
           f3 D (to_number E seqNo) = (r5, w5)"
    by (cases "ddb_update (emit (Logger_info ''Setting bundle sequence number on user...'') w3) f3 D (to_number E seqNo)")
  have fin: "(successResponse r, w') =
      (case r5 of None \<Rightarrow> (successResponse (Obj []), memcache_setBundleSeqNo w5 D (to_number E seqNo))
       | Some e \<Rightarrow> (bundle_failed e, w5))"
    using assms valid l r1 gt u r3 d5
    by (simp add: bundleTransactionLog_def Let_def w2_def)
  have r5: "r5 = None"
    using fin by (cases r5) (simp_all add: bundle_failed_def)
  have w': "w' = memcache_setBundleSeqNo w5 D (to_number E seqNo)"
    using fin r5 by simp
  have w2: "databaseTable w2 = databaseTable w" "dbStatesBucket w2 = dbStatesBucket w"
    using t1 by (simp_all add: w2_def)
  show thesis
    using that [OF nan w2 u [unfolded r3] d5 [unfolded r5] w'] .
qed

lemma ddb_update_None:
  "ddb_update w f d n = (None, w') \<Longrightarrow> stored_bundle_seq_no w' d = Num n"
  by (auto simp: ddb_update_def Let_def conditional_write_None stored_bundle_seq_no_def split: prod.splits)

lemma bundle_success:
  assumes "bundleTransactionLog E w f1 f2 f3 D seqNo B = (successResponse r, w')"
  shows "to_number E seqNo \<noteq> NaN"
    and "dbStatesBucket w' (getS3DbStateKey E D (Num (to_number E seqNo))) = Some B"
    and "stored_bundle_seq_no w' D = Num (to_number E seqNo)"
proof -
  from assms obtain w2 w3 w5 where
    nan: "to_number E seqNo \<noteq> NaN"
    and u: "s3_upload w2 f2 (getS3DbStateKey E D (Num (to_number E seqNo))) B = (None, w3)"
    and d: "ddb_update (emit (Logger_info ''Setting bundle sequence number on user...'') w3) f3 D (to_number E seqNo) = (None, w5)"
    and w': "w' = memcache_setBundleSeqNo w5 D (to_number E seqNo)"
    by (rule bundle_success_stages)
  show "to_number E seqNo \<noteq> NaN" by (rule nan)
  from s3_upload_None [OF u] have "dbStatesBucket w3 (getS3DbStateKey E D (Num (to_number E seqNo))) = Some B"
    by simp
  with ddb_update_frame(1) [OF d] w'
  show "dbStatesBucket w' (getS3DbStateKey E D (Num (to_number E seqNo))) = Some B"
    by (simp add: memcache_setBundleSeqNo_def)
  from ddb_update_None [OF d] w'
  show "stored_bundle_seq_no w' D = Num (to_number E seqNo)"
    by (simp add: memcache_setBundleSeqNo_def stored_bundle_seq_no_def)
qed

section \<open>Fetching a bundle\<close>

text \<open>
  C10. When the fetch of \<^verbatim>\<open>getBundle\<close> fails with an error \<open>e\<close>, the response is
  not-found if \<open>e\<close> has the status code 404 and the message \<^verbatim>\<open>Not Found\<close>, and an
  internal error in every other case, also for a 404 with another message.
\<close>

theorem getBundle_classification:
  assumes "truthy bundleSeqNo \<or> bundleSeqNo = Num (Fin 0)"
    and "fst (s3_getObject E w f (getS3DbStateKey E databaseId bundleSeqNo)) = Inl e"
  shows "fst (getBundle E w f databaseId bundleSeqNo) =
           Inl (errorResponse
                  (if statusCode e = Num (Fin 404) \<and> message e = ''Not Found''
                   then Not_Found else Internal_Server_Error)
                  (''Failed to query db state with '' @ message e))"
  using assms by (auto simp: getBundle_def split: prod.splits sum.splits)

theorem getBundle_classification_witness:
  "(truthy (Num (Fin 5)) \<or> Num (Fin 5) = Num (Fin 0))
   \<and> fst (s3_getObject node empty_world NoFault (getS3DbStateKey node (Str ''D1'') (Num (Fin 5))))
       = Inl NoSuchKey
   \<and> fst (getBundle node empty_world NoFault (Str ''D1'') (Num (Fin 5))) =
       Inl (errorResponse Internal_Server_Error
              ''Failed to query db state with The specified key does not exist.'')"
proof -
  have h1: "truthy (Num (Fin 5)) \<or> Num (Fin 5) = Num (Fin 0)" by simp
  have h2: "fst (s3_getObject node empty_world NoFault (getS3DbStateKey node (Str ''D1'') (Num (Fin 5))))
              = Inl NoSuchKey"
    by (simp add: s3_getObject_def empty_world_def node_def)
  show ?thesis
    using h1 h2 getBundle_classification [OF h1 h2] by (simp add: NoSuchKey_def)
qed

lemma world_D1_tables:
  "databaseTable world_D1 (Str ''D1'') =
     Some [(''database-id'', Str ''D1''), (''owner-id'', Str ''U1''),
           (''database-name'', Str ''name''), (''metadata'', Undefined)]"
  "dbStatesBucket world_D1 = Map.empty"
  "transactionLog world_D1 (Str ''D1'') = Some 1"
  by (simp_all add: world_D1_def createDatabase_def ddb_transactWrite_def conditional_write_def
        empty_world_def get_member_def memcache_initTransactionLog_def initial_sequence_no_def Let_def)

lemma bundle_D1_at_5:
  "bundleTransactionLog node world_D1 NoFault NoFault NoFault (Str ''D1'') (Num (Fin 5)) ''snapshotA''
     = (successResponse (Obj []), world_D1_bundled)"
  by (simp add: prod_eq_iff world_D1_bundled_def)
     (simp add: bundleTransactionLog_def findDatabaseByDatabaseId_NoFault world_D1_tables get_member_def
        s3_upload_def ddb_update_def conditional_write_def attribute_def Let_def)

section \<open>Bundling\<close>

text \<open>
  C1. Once a call of \<^verbatim>\<open>bundleTransactionLog\<close> has advanced the stored bundle sequence
  number of a database to \<open>N\<close>, then after any further calls of
  \<^verbatim>\<open>bundleTransactionLog\<close> a call for the same database with a number \<open>M \<le> N\<close>,
  whose lookup of the database is answered, fails with bad-request, leaves the database
  table and the bucket as they are, and the stored number is still at least \<open>N\<close>; when
  the call follows the first one directly, the stored number is \<open>N\<close> and the snapshot
  stored at \<open>N\<close> is the one of the first call.
\<close>

theorem bundle_seq_no_never_lowered:
  assumes "bundleTransactionLog E w0 g_get g_upload g_update D seqNo B = (successResponse r, w1)"
    and "to_number E seqNo = Fin N"
    and "w = bundle_calls E w1 cs"
    and "to_number E seqNo' = Fin M" and "M \<le> N"
    and "bundleTransactionLog E w NoFault f_upload f_update D seqNo' B2 = (resp, w')"
  shows "resp = errorResponse Bad_Request ''Bundle sequence no must be greater than current bundle''
       \<and> databaseTable w' = databaseTable w
       \<and> dbStatesBucket w' = dbStatesBucket w
       \<and> (\<exists>N'. N \<le> N' \<and> stored_bundle_seq_no w' D = Num (Fin N'))
       \<and> (cs = [] \<longrightarrow> stored_bundle_seq_no w' D = Num (Fin N)
                        \<and> dbStatesBucket w' (getS3DbStateKey E D (Num (Fin N))) = Some B)"
proof -
  from bundle_success [OF assms(1)] assms(2)
  have s1: "stored_bundle_seq_no w1 D = Num (Fin N)"
    and b1: "dbStatesBucket w1 (getS3DbStateKey E D (Num (Fin N))) = Some B" by simp_all
  from bundle_calls_raise [OF s1, of E cs] assms(3)
  obtain N' where N': "N \<le> N'" "stored_bundle_seq_no w D = Num (Fin N')" by blast
  from assms(5) N'(1) have "M \<le> N'" by simp
  from bundle_rejected [OF N'(2) assms(4) this, of f_upload f_update B2] assms(6)
  have resp: "resp = errorResponse Bad_Request ''Bundle sequence no must be greater than current bundle''"
    and w': "w' = settle (Ddb_get D) None w" by simp_all
  from w' N' have "\<exists>N'. N \<le> N' \<and> stored_bundle_seq_no w' D = Num (Fin N')"
    by (auto simp: stored_bundle_seq_no_def)
  moreover have "cs = [] \<longrightarrow> stored_bundle_seq_no w' D = Num (Fin N)
                        \<and> dbStatesBucket w' (getS3DbStateKey E D (Num (Fin N))) = Some B"
    using w' s1 b1 assms(3) by (auto simp: bundle_calls_def stored_bundle_seq_no_def)
  ultimately show ?thesis using resp w' by simp
qed


theorem bundle_seq_no_never_lowered_witness:
  "bundleTransactionLog node world_D1 NoFault NoFault NoFault (Str ''D1'') (Num (Fin 5)) ''snapshotA''
     = (successResponse (Obj []), world_D1_bundled)
   \<and> to_number node (Num (Fin 5)) = Fin 5
   \<and> world_D1_bundled = bundle_calls node world_D1_bundled []
   \<and> to_number node (Num (Fin 3)) = Fin 3 \<and> (3::rat) \<le> 5
   \<and> fst (bundleTransactionLog node world_D1_bundled NoFault NoFault NoFault (Str ''D1'') (Num (Fin 3)) ''snapshotB'')
       = errorResponse Bad_Request ''Bundle sequence no must be greater than current bundle''
   \<and> stored_bundle_seq_no
         (snd (bundleTransactionLog node world_D1_bundled NoFault NoFault NoFault (Str ''D1'') (Num (Fin 3)) ''snapshotB''))
         (Str ''D1'') = Num (Fin 5)
   \<and> dbStatesBucket
         (snd (bundleTransactionLog node world_D1_bundled NoFault NoFault NoFault (Str ''D1'') (Num (Fin 3)) ''snapshotB''))
         (getS3DbStateKey node (Str ''D1'') (Num (Fin 5))) = Some ''snapshotA''"
proof -
  have h3: "world_D1_bundled = bundle_calls node world_D1_bundled []" by (simp add: bundle_calls_def)
  have h6: "bundleTransactionLog node world_D1_bundled NoFault NoFault NoFault (Str ''D1'') (Num (Fin 3)) ''snapshotB''
     = (fst (bundleTransactionLog node world_D1_bundled NoFault NoFault NoFault (Str ''D1'') (Num (Fin 3)) ''snapshotB''),
        snd (bundleTransactionLog node world_D1_bundled NoFault NoFault NoFault (Str ''D1'') (Num (Fin 3)) ''snapshotB''))"
    by simp
  have h2: "to_number node (Num (Fin 5)) = Fin 5" and h4: "to_number node (Num (Fin 3)) = Fin 3"
    and h5: "(3::rat) \<le> 5" by simp_all
  from bundle_seq_no_never_lowered [OF bundle_D1_at_5 h2 h3 h4 h5 h6] bundle_D1_at_5 h2 h3 h4 h5
  show ?thesis by blast
qed

text \<open>
  C7. The first step of \<^verbatim>\<open>bundleTransactionLog\<close> rejects a sequence number exactly when
  \<^verbatim>\<open>Number(seqNo)\<close> is \<open>NaN\<close>: then the call returns the bad-request \<^verbatim>\<open>Missing bundle
  sequence number\<close> and touches nothing. Every \<open>seqNo\<close> that converts to a number passes
  this step: the response is another one. Negative numbers pass, and so do \<^verbatim>\<open>null\<close>,
  \<^verbatim>\<open>false\<close> and the empty string, which convert to 0.
\<close>

theorem bundle_validation:
  "(to_number E seqNo = NaN \<longrightarrow>
      bundleTransactionLog E w f_get f_upload f_update databaseId seqNo bundle =
        (errorResponse Bad_Request ''Missing bundle sequence number'', w))
   \<and> (to_number E seqNo \<noteq> NaN \<longrightarrow>
      fst (bundleTransactionLog E w f_get f_upload f_update databaseId seqNo bundle) \<noteq>
        errorResponse Bad_Request ''Missing bundle sequence number'')"
  by (cases "to_number E seqNo")
     (auto simp: bundleTransactionLog_def Let_def bundle_failed_def
        split: prod.splits sum.splits option.splits if_splits)

theorem bundle_validation_witness:
  "to_number node Undefined = NaN
   \<and> bundleTransactionLog node world_D1 NoFault NoFault NoFault (Str ''D1'') Undefined ''snapshotA'' =
        (errorResponse Bad_Request ''Missing bundle sequence number'', world_D1)
   \<and> to_number node Null \<noteq> NaN
   \<and> fst (bundleTransactionLog node world_D1 NoFault NoFault NoFault (Str ''D1'') Null ''snapshotA'') \<noteq>
        errorResponse Bad_Request ''Missing bundle sequence number''"
  using bundle_validation [of node Undefined world_D1 NoFault NoFault NoFault "Str ''D1''" "''snapshotA''"]
    bundle_validation [of node Null world_D1 NoFault NoFault NoFault "Str ''D1''" "''snapshotA''"]
  by simp

text \<open>
  The claim as the spec states it fails: the sequence number \<open>-5\<close> is not rejected. The
  call succeeds and stores \<open>-5\<close> as the bundle sequence number of the database.
\<close>

theorem bundle_validation_counterexample:
  "fst (bundleTransactionLog node world_D1 NoFault NoFault NoFault (Str ''D1'') (Num (Fin (- 5))) ''snapshotA'')
     = successResponse (Obj [])
   \<and> stored_bundle_seq_no
        (snd (bundleTransactionLog node world_D1 NoFault NoFault NoFault (Str ''D1'') (Num (Fin (- 5))) ''snapshotA''))
        (Str ''D1'') = Num (Fin (- 5))"
  by (simp add: bundleTransactionLog_def findDatabaseByDatabaseId_NoFault world_D1_tables get_member_def
        s3_upload_def ddb_update_def conditional_write_def attribute_def Let_def stored_bundle_seq_no_def
        memcache_setBundleSeqNo_def)

lemma canceled_includes:
  "\<not> (ok1 \<and> ok2) \<Longrightarrow>
     message (TransactionCanceledException ok1 ok2) \<noteq> []
     \<and> str_includes (message (TransactionCanceledException ok1 ok2)) ''ConditionalCheckFailed''"
  by (cases ok1; cases ok2; simp add: TransactionCanceledException_def)

lemma ddb_transactWrite_cases:
  assumes "ddb_transactWrite w f database userDatabase = (r, w')"
  shows "(databaseTable w' = databaseTable w \<and> userDatabaseTable w' = userDatabaseTable w)
       \<or> (databaseTable w (get_member database ''database-id'') = None
          \<and> userDatabaseTable w (get_member userDatabase ''user-id'', get_member userDatabase ''database-name-hash'') = None
          \<and> databaseTable w' = (databaseTable w)(get_member database ''database-id'' \<mapsto> database)
          \<and> userDatabaseTable w' = (userDatabaseTable w)
               ((get_member userDatabase ''user-id'', get_member userDatabase ''database-name-hash'') \<mapsto> userDatabase))"
  using assms
  by (auto simp: ddb_transactWrite_def Let_def split: prod.splits dest!: conditional_write_cases)

lemma ddb_transactWrite_result:
  assumes "ddb_transactWrite w f database userDatabase = (r, w')"
  shows "r = (case f of
            NoFault \<Rightarrow>
              (if databaseTable w (get_member database ''database-id'') = None
                  \<and> userDatabaseTable w (get_member userDatabase ''user-id'', get_member userDatabase ''database-name-hash'') = None
               then None
               else Some (TransactionCanceledException
                      (databaseTable w (get_member database ''database-id'') = None)
                      (userDatabaseTable w (get_member userDatabase ''user-id'', get_member userDatabase ''database-name-hash'') = None)))
          | FailBefore e \<Rightarrow> Some e
          | FailAfter e \<Rightarrow> Some e)"
  using assms
  by (auto simp: ddb_transactWrite_def Let_def conditional_write_def split: prod.splits fault.splits if_splits)

lemma ddb_transactWrite_frame:
  assumes "ddb_transactWrite w f database userDatabase = (r, w')"
  shows "transactionsTable w' = transactionsTable w" "dbStatesBucket w' = dbStatesBucket w"
    "transactionLog w' = transactionLog w"
  using assms by (auto simp: ddb_transactWrite_def Let_def split: prod.splits)

lemma ddb_put_cases:
  assumes "ddb_put w f cond it = (r, w')"
  shows "transactionsTable w' = transactionsTable w
       \<or> (cond (transactionsTable w (slot_of it))
          \<and> transactionsTable w' = (transactionsTable w)(slot_of it \<mapsto> it))"
  using assms by (auto simp: ddb_put_def Let_def split: prod.splits dest!: conditional_write_cases)

lemma ddb_put_result:
  assumes "ddb_put w f cond it = (r, w')"
  shows "r = (case f of
            NoFault \<Rightarrow> if cond (transactionsTable w (slot_of it)) then None
                       else Some ConditionalCheckFailedException
          | FailBefore e \<Rightarrow> Some e
          | FailAfter e \<Rightarrow> Some e)"
  using assms
  by (auto simp: ddb_put_def Let_def conditional_write_def split: prod.splits fault.splits if_splits)

lemma ddb_put_NoFault:
  assumes "ddb_put w NoFault cond it = (r, w')"
  shows "cond (transactionsTable w (slot_of it)) \<Longrightarrow>
           r = None \<and> transactionsTable w' = (transactionsTable w)(slot_of it \<mapsto> it)"
    and "\<not> cond (transactionsTable w (slot_of it)) \<Longrightarrow>
           r = Some ConditionalCheckFailedException \<and> transactionsTable w' = transactionsTable w"
  using assms
  by (auto simp: ddb_put_def Let_def conditional_write_def split: prod.splits if_splits)

lemma ddb_put_FailAfter:
  assumes "ddb_put w (FailAfter e) cond it = (r, w')"
  shows "r = Some e"
    and "cond (transactionsTable w (slot_of it)) \<Longrightarrow>
           transactionsTable w' = (transactionsTable w)(slot_of it \<mapsto> it)"
  using assms
  by (auto simp: ddb_put_def Let_def conditional_write_def split: prod.splits if_splits)

lemma ddb_put_trace:
  assumes "ddb_put w f cond it = (r, w')"
  shows "trace w' = trace w @ [case r of None \<Rightarrow> Io_resolved (Ddb_put it) | Some e \<Rightarrow> Io_rejected (Ddb_put it) e]"
  using assms by (auto simp: ddb_put_def Let_def settle_def split: prod.splits option.splits)

lemma ddb_put_frame:
  assumes "ddb_put w f cond it = (r, w')"
  shows "databaseTable w' = databaseTable w" "userDatabaseTable w' = userDatabaseTable w"
    "dbStatesBucket w' = dbStatesBucket w" "transactionLog w' = transactionLog w"
  using assms by (auto simp: ddb_put_def Let_def split: prod.splits)

lemma slot_of_marker [simp]: "slot_of (transactionWithRollbackCommand transaction) = slot_of transaction"
  by (simp add: slot_of_def transactionWithRollbackCommand_def get_member_def)

lemma rollback_condition_Some:
  "rollback_condition (Some stored) \<longleftrightarrow> get_member stored ''command'' = Str ''rollback''"
  by (auto simp: rollback_condition_def attribute_def)

lemma CCFE_name [simp]: "name ConditionalCheckFailedException = ''ConditionalCheckFailedException''"
  by (simp add: ConditionalCheckFailedException_def)

text \<open>
  C3. The rollback of a transaction writes the rollback marker into the slot of the
  transaction only if the slot is empty or holds an item whose \<^verbatim>\<open>command\<close> is
  \<^verbatim>\<open>rollback\<close>. When the store answers: if this guard holds, the marker is written
  and the slot is marked rolled back; if it fails, nothing is written and the slot is
  marked persisted with the original transaction. A stored transaction whose
  \<^verbatim>\<open>command\<close> is not \<^verbatim>\<open>rollback\<close> is never overwritten, whatever the store answers.
\<close>

theorem rollback_guard:
  assumes "w' = rollbackTransaction w f transaction"
  shows "(transactionsTable w' = transactionsTable w
          \<or> (rollback_condition (transactionsTable w (slot_of transaction))
             \<and> transactionsTable w' =
                 (transactionsTable w)(slot_of transaction \<mapsto> transactionWithRollbackCommand transaction)))
       \<and> (f = NoFault \<and> rollback_condition (transactionsTable w (slot_of transaction)) \<longrightarrow>
             transactionsTable w' =
               (transactionsTable w)(slot_of transaction \<mapsto> transactionWithRollbackCommand transaction)
             \<and> trace w' = trace w @
                 [Io_resolved (Ddb_put (transactionWithRollbackCommand transaction)),
                  Memcache_transactionRolledBack (transactionWithRollbackCommand transaction)])
       \<and> (f = NoFault \<and> \<not> rollback_condition (transactionsTable w (slot_of transaction)) \<longrightarrow>
             transactionsTable w' = transactionsTable w
             \<and> trace w' = trace w @
                 [Io_rejected (Ddb_put (transactionWithRollbackCommand transaction)) ConditionalCheckFailedException,
                  Memcache_transactionPersistedToDdb transaction,
                  Logger_info ''Failed to rollback -- transaction already persisted to disk''])
       \<and> (\<forall>stored. transactionsTable w (slot_of transaction) = Some stored
                    \<and> get_member stored ''command'' \<noteq> Str ''rollback'' \<longrightarrow>
             transactionsTable w' = transactionsTable w)"
proof -
  define m where "m = transactionWithRollbackCommand transaction"
  obtain r w1 where p: "ddb_put w f rollback_condition m = (r, w1)"
    by (cases "ddb_put w f rollback_condition m")
  have w': "w' = (case r of
        None \<Rightarrow> emit (Memcache_transactionRolledBack m) w1
      | Some e \<Rightarrow>
          (if name e = ''ConditionalCheckFailedException''
           then emit (Logger_info ''Failed to rollback -- transaction already persisted to disk'')
                  (emit (Memcache_transactionPersistedToDdb transaction) w1)
           else emit (Logger_warn (''Failed to rollback with '' @ error_to_string e)) w1))"
    using assms p unfolding m_def by (simp add: rollbackTransaction_def)
  have tab: "transactionsTable w' = transactionsTable w1"
    using w' by (simp split: option.splits)
  have slot: "slot_of m = slot_of transaction" by (simp add: m_def)
  note cases = ddb_put_cases [OF p, unfolded slot]
  have 1: "transactionsTable w' = transactionsTable w
          \<or> (rollback_condition (transactionsTable w (slot_of transaction))
             \<and> transactionsTable w' = (transactionsTable w)(slot_of transaction \<mapsto> m))"
    using cases tab by simp
  have 2: "f = NoFault \<and> rollback_condition (transactionsTable w (slot_of transaction)) \<longrightarrow>
             transactionsTable w' = (transactionsTable w)(slot_of transaction \<mapsto> m)
             \<and> trace w' = trace w @ [Io_resolved (Ddb_put m), Memcache_transactionRolledBack m]"
  proof
    assume a: "f = NoFault \<and> rollback_condition (transactionsTable w (slot_of transaction))"
    with p have p': "ddb_put w NoFault rollback_condition m = (r, w1)" by simp
    from ddb_put_NoFault(1) [OF p'] a slot
    have r: "r = None" and t: "transactionsTable w1 = (transactionsTable w)(slot_of transaction \<mapsto> m)"
      by simp_all
    from ddb_put_trace [OF p] r have "trace w1 = trace w @ [Io_resolved (Ddb_put m)]" by simp
    with r t tab w'
    show "transactionsTable w' = (transactionsTable w)(slot_of transaction \<mapsto> m)
             \<and> trace w' = trace w @ [Io_resolved (Ddb_put m), Memcache_transactionRolledBack m]"
      by simp
  qed
  have 3: "f = NoFault \<and> \<not> rollback_condition (transactionsTable w (slot_of transaction)) \<longrightarrow>
             transactionsTable w' = transactionsTable w
             \<and> trace w' = trace w @
                 [Io_rejected (Ddb_put m) ConditionalCheckFailedException,
                  Memcache_transactionPersistedToDdb transaction,
                  Logger_info ''Failed to rollback -- transaction already persisted to disk'']"
  proof
    assume a: "f = NoFault \<and> \<not> rollback_condition (transactionsTable w (slot_of transaction))"
    with p have p': "ddb_put w NoFault rollback_condition m = (r, w1)" by simp
    from ddb_put_NoFault(2) [OF p'] a slot
    have r: "r = Some ConditionalCheckFailedException" and t: "transactionsTable w1 = transactionsTable w"
      by simp_all
    from ddb_put_trace [OF p] r
    have "trace w1 = trace w @ [Io_rejected (Ddb_put m) ConditionalCheckFailedException]" by simp
    with r t tab w'
    show "transactionsTable w' = transactionsTable w
             \<and> trace w' = trace w @
                 [Io_rejected (Ddb_put m) ConditionalCheckFailedException,
                  Memcache_transactionPersistedToDdb transaction,
                  Logger_info ''Failed to rollback -- transaction already persisted to disk'']"
      by simp
  qed
  have 4: "\<forall>stored. transactionsTable w (slot_of transaction) = Some stored
                    \<and> get_member stored ''command'' \<noteq> Str ''rollback'' \<longrightarrow>
             transactionsTable w' = transactionsTable w"
    using 1 by (auto simp: rollback_condition_Some)
  from 1 2 3 4 show ?thesis unfolding m_def by blast
qed

lemma world_D1_more:
  "transactionsTable world_D1 = Map.empty"
  "transactionLog world_D1 (Str ''D1'') = Some 1"
  by (simp_all add: world_D1_def createDatabase_def ddb_transactWrite_def conditional_write_def
        empty_world_def get_member_def memcache_initTransactionLog_def initial_sequence_no_def Let_def)

lemma committed_rollback:
  "doCommand node world_D1 (FailAfter lost_reply) (Str ''rollback'') (Str ''U1'') (Str ''D1'') (Str ''k'') (Str ''r1'')
     = (errorResponse Internal_Server_Error
          ''Failed to rollback with Error: Failed with TimeoutError: Connection timed out.'',
        world_D1_committed,
        Some [(''database-id'', Str ''D1''), (''key'', Str ''k''), (''command'', Str ''rollback''),
              (''record'', Str ''r1''), (''sequence-no'', Num (Fin 1))])"
  by (simp add: prod_eq_iff world_D1_committed_def)
     (simp add: doCommand_def putTransaction_def memcache_pushTransaction_def world_D1_more get_member_def
        putTransaction_settled_def ddb_put_def conditional_write_def slot_of_def slot_empty_def
        node_def lost_reply_def error_to_string_def new_Error_def Let_def)

lemma world_D1_committed_slot:
  "transactionsTable world_D1_committed (Str ''D1'', Num (Fin 1)) =
     Some [(''database-id'', Str ''D1''), (''key'', Str ''k''), (''command'', Str ''rollback''),
           (''record'', Str ''r1''), (''sequence-no'', Num (Fin 1))]"
  by (simp add: world_D1_committed_def doCommand_def putTransaction_def memcache_pushTransaction_def
        world_D1_more get_member_def
        putTransaction_settled_def ddb_put_def conditional_write_def slot_of_def slot_empty_def
        node_def lost_reply_def error_to_string_def new_Error_def Let_def)

text \<open>
  The claim as the spec states it fails for a transaction whose own command is
  \<^verbatim>\<open>rollback\<close>. The \<^verbatim>\<open>put\<close> of \<^verbatim>\<open>doCommand('rollback', U1, D1, 'k', 'r1')\<close> lands in
  the table but its reply is lost; the rollback that \<^verbatim>\<open>putTransaction\<close> starts then
  finds the committed transaction in the slot, takes it for a marker and overwrites it.
\<close>

theorem rollback_guard_counterexample:
  "snd (snd (doCommand node world_D1 (FailAfter lost_reply) (Str ''rollback'') (Str ''U1'') (Str ''D1'')
               (Str ''k'') (Str ''r1'')))
     = Some [(''database-id'', Str ''D1''), (''key'', Str ''k''), (''command'', Str ''rollback''),
             (''record'', Str ''r1''), (''sequence-no'', Num (Fin 1))]
   \<and> transactionsTable world_D1_committed (Str ''D1'', Num (Fin 1))
     = Some [(''database-id'', Str ''D1''), (''key'', Str ''k''), (''command'', Str ''rollback''),
             (''record'', Str ''r1''), (''sequence-no'', Num (Fin 1))]
   \<and> transactionsTable
        (rollbackTransaction world_D1_committed NoFault
           [(''database-id'', Str ''D1''), (''key'', Str ''k''), (''command'', Str ''rollback''),
            (''record'', Str ''r1''), (''sequence-no'', Num (Fin 1))])
        (Str ''D1'', Num (Fin 1))
     = Some [(''database-id'', Str ''D1''), (''sequence-no'', Num (Fin 1)), (''item-id'', Undefined),
             (''command'', Str ''rollback'')]"
  by (simp add: committed_rollback)
     (simp add: rollbackTransaction_def ddb_put_def conditional_write_def slot_of_def
        transactionWithRollbackCommand_def get_member_def world_D1_committed_slot
        rollback_condition_def attribute_def Let_def)

lemma world_D1_inserted_slot:
  "transactionsTable world_D1_inserted (slot_of inserted) = Some inserted"
  by (simp add: world_D1_inserted_def doCommand_def putTransaction_def memcache_pushTransaction_def
        world_D1_more get_member_def inserted_def
        putTransaction_settled_def ddb_put_def conditional_write_def slot_of_def slot_empty_def
        node_def lost_reply_def error_to_string_def new_Error_def Let_def)

theorem rollback_guard_witness:
  "transactionsTable world_D1_inserted (slot_of inserted) = Some inserted
   \<and> get_member inserted ''command'' \<noteq> Str ''rollback''
   \<and> transactionsTable (rollbackTransaction world_D1_inserted NoFault inserted)
       = transactionsTable world_D1_inserted
   \<and> trace (rollbackTransaction world_D1_inserted NoFault inserted)
       = trace world_D1_inserted @
           [Io_rejected (Ddb_put (transactionWithRollbackCommand inserted)) ConditionalCheckFailedException,
            Memcache_transactionPersistedToDdb inserted,
            Logger_info ''Failed to rollback -- transaction already persisted to disk'']"
proof -
  have c: "get_member inserted ''command'' \<noteq> Str ''rollback''"
    by (simp add: inserted_def get_member_def)
  with world_D1_inserted_slot
  have g: "\<not> rollback_condition (transactionsTable world_D1_inserted (slot_of inserted))"
    by (simp add: rollback_condition_Some)
  from rollback_guard [OF refl, of world_D1_inserted NoFault inserted] world_D1_inserted_slot c g
  show ?thesis by blast
qed

lemma putTransaction_settled_resolved:
  assumes "fst (ddb_put w f slot_empty t) = None"
  shows "\<exists>w'. putTransaction_settled E w f transaction t userId =
                 (Inr (get_member t ''sequence-no''), w', None)
            \<and> trace w' = trace w @ [Io_resolved (Ddb_put t), Memcache_transactionPersistedToDdb t,
                                     Connections_push (get_member transaction ''database-id'') userId]
            \<and> transactionsTable w' = (transactionsTable w)(slot_of t \<mapsto> t)"
proof -
  obtain r w1 where p: "ddb_put w f slot_empty t = (r, w1)" by (cases "ddb_put w f slot_empty t")
  with assms have r: "r = None" by simp
  from ddb_put_trace [OF p] r have tr: "trace w1 = trace w @ [Io_resolved (Ddb_put t)]" by simp
  from p r have "transactionsTable w1 = (transactionsTable w)(slot_of t \<mapsto> t)"
    by (auto simp: ddb_put_def Let_def conditional_write_None split: prod.splits)
  with p r tr show ?thesis by (simp add: putTransaction_settled_def)
qed

lemma putTransaction_settled_rejected:
  assumes "fst (ddb_put w f slot_empty t) = Some e"
  shows "\<exists>w'. putTransaction_settled E w f transaction t userId =
                 (Inl (new_Error (''Failed with '' @ error_to_string e @ ''.'')), w', Some t)
            \<and> trace w' = trace w @
                 [Io_rejected (Ddb_put t) e,
                  Logger_warn (''Transaction '' @ to_string E (get_member t ''sequence-no'')
                     @ '' failed with '' @ error_to_string e @ ''! Rolling back...'')]"
proof -
  obtain r w1 where p: "ddb_put w f slot_empty t = (r, w1)" by (cases "ddb_put w f slot_empty t")
  with assms have r: "r = Some e" by simp
  from ddb_put_trace [OF p] r have tr: "trace w1 = trace w @ [Io_rejected (Ddb_put t) e]" by simp
  with p r show ?thesis by (simp add: putTransaction_settled_def)
qed

lemma error_to_string_new_Error [simp]:
  "error_to_string (new_Error m) = (if m = [] then ''Error'' else ''Error: '' @ m)"
  by (simp add: error_to_string_def new_Error_def)

lemma memcache_pushTransaction_cases:
  assumes "memcache_pushTransaction w transaction = (r, w1)"
  shows "(r = Inl no_transaction_log \<and> w1 = w)
       \<or> (\<exists>t. r = Inr t \<and> trace w1 = trace w @ [Memcache_pushTransaction t]
              \<and> transactionsTable w1 = transactionsTable w)"
  using assms by (auto simp: memcache_pushTransaction_def Let_def split: option.splits)

lemma putTransaction_trace:
  assumes "putTransaction E w f transaction userId = (r, w', rb)"
  shows "trace w' = trace w
       \<or> (\<exists>t e m. trace w' = trace w @ [Memcache_pushTransaction t, Io_rejected (Ddb_put t) e, Logger_warn m])
       \<or> (\<exists>t. trace w' = trace w @
              [Memcache_pushTransaction t, Io_resolved (Ddb_put t), Memcache_transactionPersistedToDdb t,
               Connections_push (get_member transaction ''database-id'') userId])"
proof -
  obtain r1 w1 where push: "memcache_pushTransaction w transaction = (r1, w1)"
    by (cases "memcache_pushTransaction w transaction")
  from memcache_pushTransaction_cases [OF push] show ?thesis
  proof
    assume "r1 = Inl no_transaction_log \<and> w1 = w"
    with assms push show ?thesis by (simp add: putTransaction_def)
  next
    assume "\<exists>t. r1 = Inr t \<and> trace w1 = trace w @ [Memcache_pushTransaction t]
              \<and> transactionsTable w1 = transactionsTable w"
    then obtain t where t: "r1 = Inr t" "trace w1 = trace w @ [Memcache_pushTransaction t]" by blast
    with assms push have s: "putTransaction_settled E w1 f transaction t userId = (r, w', rb)"
      by (simp add: putTransaction_def)
    show ?thesis
    proof (cases "fst (ddb_put w1 f slot_empty t)")
      case None
      from putTransaction_settled_resolved [OF None, of E transaction userId] s t(2)
      show ?thesis by auto
    next
      case (Some e)
      from putTransaction_settled_rejected [OF Some, of E transaction userId] s t(2)
      show ?thesis by auto
    qed
  qed
qed

lemma drop_trace [simp]: "drop (length xs) (xs @ ys) = ys"
  by simp

lemma doCommand_trace:
  "(\<exists>t. drop (length (trace w)) (trace (fst (snd (doCommand E w f command userId databaseId key record)))) =
          [Memcache_pushTransaction t, Io_resolved (Ddb_put t), Memcache_transactionPersistedToDdb t,
           Connections_push databaseId userId])
   \<or> (\<forall>d u. Connections_push d u \<notin>
          set (drop (length (trace w)) (trace (fst (snd (doCommand E w f command userId databaseId key record))))))"
proof (cases "truthy databaseId \<and> truthy key \<and> truthy record")
  case False
  then have "fst (snd (doCommand E w f command userId databaseId key record)) = w"
    by (auto simp: doCommand_def)
  then show ?thesis by simp
next
  case True
  define transaction where "transaction = [(''database-id'', databaseId), (''key'', key),
                            (''command'', command), (''record'', record)]"
  obtain r w' rb where p: "putTransaction E w f transaction userId = (r, w', rb)"
    by (cases "putTransaction E w f transaction userId")
  have d: "get_member transaction ''database-id'' = databaseId"
    by (simp add: transaction_def get_member_def)
  from True p have "fst (snd (doCommand E w f command userId databaseId key record)) = w'"
    by (cases r) (simp_all add: doCommand_def transaction_def)
  with putTransaction_trace [OF p, unfolded d] show ?thesis by auto
qed

lemma batch_trace:
  "(\<exists>t. drop (length (trace w)) (trace (fst (snd (batch E w f userId databaseId operations)))) =
          [Memcache_pushTransaction t, Io_resolved (Ddb_put t), Memcache_transactionPersistedToDdb t,
           Connections_push databaseId userId])
   \<or> (\<forall>d u. Connections_push d u \<notin>
          set (drop (length (trace w)) (trace (fst (snd (batch E w f userId databaseId operations))))))"
proof (cases "\<exists>ops. truthy databaseId \<and> truthy operations \<and> truthy (js_length operations)
                \<and> batch_loop E operations 0 [] = Resolved (Inr ops)")
  case False
  then have "fst (snd (batch E w f userId databaseId operations)) = w"
    by (auto simp: batch_def split: completion.splits sum.splits)
  then show ?thesis by simp
next
  case True
  then obtain ops where v: "truthy databaseId" "truthy operations" "truthy (js_length operations)"
    "batch_loop E operations 0 [] = Resolved (Inr ops)" by blast
  define transaction where "transaction = [(''database-id'', databaseId), (''command'', Str ''Batch''),
                                 (''operations'', Arr ops)]"
  obtain r w' rb where p: "putTransaction E w f transaction userId = (r, w', rb)"
    by (cases "putTransaction E w f transaction userId")
  have d: "get_member transaction ''database-id'' = databaseId"
    by (simp add: transaction_def get_member_def)
  from v p have "fst (snd (batch E w f userId databaseId operations)) = w'"
    by (cases r) (simp_all add: batch_def transaction_def)
  with putTransaction_trace [OF p, unfolded d] show ?thesis by auto
qed

lemma putTransaction_resolved:
  assumes "memcache_pushTransaction w transaction = (Inr t, w1)"
    and "fst (ddb_put w1 f slot_empty t) = None"
  shows "\<exists>w'. putTransaction E w f transaction userId = (Inr (get_member t ''sequence-no''), w', None)
            \<and> trace w' = trace w @
                 [Memcache_pushTransaction t, Io_resolved (Ddb_put t), Memcache_transactionPersistedToDdb t,
                  Connections_push (get_member transaction ''database-id'') userId]"
proof -
  from memcache_pushTransaction_cases [OF assms(1)]
  have tr: "trace w1 = trace w @ [Memcache_pushTransaction t]" by auto
  from putTransaction_settled_resolved [OF assms(2), of E transaction userId] tr assms(1)
  show ?thesis by (auto simp: putTransaction_def)
qed

lemma putTransaction_rejected:
  assumes "memcache_pushTransaction w transaction = (Inr t, w1)"
    and "fst (ddb_put w1 f slot_empty t) = Some e"
  shows "\<exists>w'. putTransaction E w f transaction userId =
                 (Inl (new_Error (''Failed with '' @ error_to_string e @ ''.'')), w', Some t)
            \<and> putTransaction_settled E w1 f transaction t userId =
                 (Inl (new_Error (''Failed with '' @ error_to_string e @ ''.'')), w', Some t)
            \<and> trace w' = trace w @
                 [Memcache_pushTransaction t, Io_rejected (Ddb_put t) e,
                  Logger_warn (''Transaction '' @ to_string E (get_member t ''sequence-no'')
                     @ '' failed with '' @ error_to_string e @ ''! Rolling back...'')]"
proof -
  from memcache_pushTransaction_cases [OF assms(1)]
  have tr: "trace w1 = trace w @ [Memcache_pushTransaction t]" by auto
  from putTransaction_settled_rejected [OF assms(2), of E transaction userId] tr assms(1)
  show ?thesis by (auto simp: putTransaction_def)
qed

text \<open>
  C2. A single command or a batch that passes its checks, gets a sequence number and
  whose guarded \<^verbatim>\<open>put\<close> succeeds: the calls the code makes are, in this order, the
  assignment, the confirmed \<^verbatim>\<open>put\<close>, \<^verbatim>\<open>memcache.transactionPersistedToDdb\<close> and
  \<^verbatim>\<open>connections.push\<close> for the database and the user, and the call returns the
  assigned sequence number. For every call of \<^verbatim>\<open>doCommand\<close> and of \<^verbatim>\<open>batch\<close>,
  whatever the store answers: the calls it adds to the trace either are this sequence
  or contain no \<^verbatim>\<open>connections.push\<close> at all, so the notifier is never called before
  the write is confirmed.
\<close>

theorem commit_success_order:
  "(truthy databaseId \<and> truthy key \<and> truthy record
      \<and> memcache_pushTransaction w [(''database-id'', databaseId), (''key'', key),
                                    (''command'', command), (''record'', record)] = (Inr t, w1)
      \<and> fst (ddb_put w1 f slot_empty t) = None \<longrightarrow>
      (\<exists>w'. doCommand E w f command userId databaseId key record =
               (successResponse (Obj [(''sequenceNo'', get_member t ''sequence-no'')]), w', None)
           \<and> trace w' = trace w @
                [Memcache_pushTransaction t, Io_resolved (Ddb_put t), Memcache_transactionPersistedToDdb t,
                 Connections_push databaseId userId]))
   \<and> (truthy databaseId \<and> truthy operations \<and> truthy (js_length operations)
      \<and> batch_loop E operations 0 [] = Resolved (Inr ops)
      \<and> memcache_pushTransaction w [(''database-id'', databaseId), (''command'', Str ''Batch''),
                                    (''operations'', Arr ops)] = (Inr t, w1)
      \<and> fst (ddb_put w1 f slot_empty t) = None \<longrightarrow>
      (\<exists>w'. batch E w f userId databaseId operations =
               (Resolved (successResponse (Obj [(''sequenceNo'', get_member t ''sequence-no'')])), w', None)
           \<and> trace w' = trace w @
                [Memcache_pushTransaction t, Io_resolved (Ddb_put t), Memcache_transactionPersistedToDdb t,
                 Connections_push databaseId userId]))
   \<and> ((\<exists>t. drop (length (trace w)) (trace (fst (snd (doCommand E w f command userId databaseId key record)))) =
          [Memcache_pushTransaction t, Io_resolved (Ddb_put t), Memcache_transactionPersistedToDdb t,
           Connections_push databaseId userId])
       \<or> (\<forall>d u. Connections_push d u \<notin>
          set (drop (length (trace w)) (trace (fst (snd (doCommand E w f command userId databaseId key record)))))))
   \<and> ((\<exists>t. drop (length (trace w)) (trace (fst (snd (batch E w f userId databaseId operations)))) =
          [Memcache_pushTransaction t, Io_resolved (Ddb_put t), Memcache_transactionPersistedToDdb t,
           Connections_push databaseId userId])
       \<or> (\<forall>d u. Connections_push d u \<notin>
          set (drop (length (trace w)) (trace (fst (snd (batch E w f userId databaseId operations)))))))"
proof (intro conjI impI)
  assume a: "truthy databaseId \<and> truthy key \<and> truthy record
      \<and> memcache_pushTransaction w [(''database-id'', databaseId), (''key'', key),
                                    (''command'', command), (''record'', record)] = (Inr t, w1)
      \<and> fst (ddb_put w1 f slot_empty t) = None"
  then have push: "memcache_pushTransaction w [(''database-id'', databaseId), (''key'', key),
                                    (''command'', command), (''record'', record)] = (Inr t, w1)"
    and put: "fst (ddb_put w1 f slot_empty t) = None" by simp_all
  from putTransaction_resolved [OF push put, of E userId] a
  show "\<exists>w'. doCommand E w f command userId databaseId key record =
               (successResponse (Obj [(''sequenceNo'', get_member t ''sequence-no'')]), w', None)
           \<and> trace w' = trace w @
                [Memcache_pushTransaction t, Io_resolved (Ddb_put t), Memcache_transactionPersistedToDdb t,
                 Connections_push databaseId userId]"
    by (auto simp: doCommand_def get_member_def)
next
  assume a: "truthy databaseId \<and> truthy operations \<and> truthy (js_length operations)
      \<and> batch_loop E operations 0 [] = Resolved (Inr ops)
      \<and> memcache_pushTransaction w [(''database-id'', databaseId), (''command'', Str ''Batch''),
                                    (''operations'', Arr ops)] = (Inr t, w1)
      \<and> fst (ddb_put w1 f slot_empty t) = None"
  then have push: "memcache_pushTransaction w [(''database-id'', databaseId), (''command'', Str ''Batch''),
                                    (''operations'', Arr ops)] = (Inr t, w1)"
    and put: "fst (ddb_put w1 f slot_empty t) = None" by simp_all
  from putTransaction_resolved [OF push put, of E userId] a
  show "\<exists>w'. batch E w f userId databaseId operations =
               (Resolved (successResponse (Obj [(''sequenceNo'', get_member t ''sequence-no'')])), w', None)
           \<and> trace w' = trace w @
                [Memcache_pushTransaction t, Io_resolved (Ddb_put t), Memcache_transactionPersistedToDdb t,
                 Connections_push databaseId userId]"
    by (auto simp: batch_def get_member_def)
next
  show "(\<exists>t. drop (length (trace w)) (trace (fst (snd (doCommand E w f command userId databaseId key record)))) =
          [Memcache_pushTransaction t, Io_resolved (Ddb_put t), Memcache_transactionPersistedToDdb t,
           Connections_push databaseId userId])
       \<or> (\<forall>d u. Connections_push d u \<notin>
          set (drop (length (trace w)) (trace (fst (snd (doCommand E w f command userId databaseId key record))))))"
    by (rule doCommand_trace)
next
  show "(\<exists>t. drop (length (trace w)) (trace (fst (snd (batch E w f userId databaseId operations)))) =
          [Memcache_pushTransaction t, Io_resolved (Ddb_put t), Memcache_transactionPersistedToDdb t,
           Connections_push databaseId userId])
       \<or> (\<forall>d u. Connections_push d u \<notin>
          set (drop (length (trace w)) (trace (fst (snd (batch E w f userId databaseId operations))))))"
    by (rule batch_trace)
qed

lemma world_D1_push:
  "memcache_pushTransaction world_D1
      [(''database-id'', Str ''D1''), (''key'', Str ''k''), (''command'', Str ''Insert''), (''record'', Str ''r1'')]
     = (Inr inserted,
        snd (memcache_pushTransaction world_D1
          [(''database-id'', Str ''D1''), (''key'', Str ''k''), (''command'', Str ''Insert''), (''record'', Str ''r1'')]))"
  by (simp add: prod_eq_iff)
     (simp add: memcache_pushTransaction_def world_D1_more get_member_def inserted_def Let_def)

lemma world_D1_push_table:
  "transactionsTable (snd (memcache_pushTransaction world_D1
      [(''database-id'', Str ''D1''), (''key'', Str ''k''), (''command'', Str ''Insert''), (''record'', Str ''r1'')]))
     = Map.empty"
  by (simp add: memcache_pushTransaction_def world_D1_more get_member_def Let_def)

theorem commit_success_order_witness:
  "truthy (Str ''D1'') \<and> truthy (Str ''k'') \<and> truthy (Str ''r1'')
   \<and> memcache_pushTransaction world_D1
        [(''database-id'', Str ''D1''), (''key'', Str ''k''), (''command'', Str ''Insert''), (''record'', Str ''r1'')]
       = (Inr inserted,
          snd (memcache_pushTransaction world_D1
            [(''database-id'', Str ''D1''), (''key'', Str ''k''), (''command'', Str ''Insert''), (''record'', Str ''r1'')]))
   \<and> fst (ddb_put (snd (memcache_pushTransaction world_D1
            [(''database-id'', Str ''D1''), (''key'', Str ''k''), (''command'', Str ''Insert''), (''record'', Str ''r1'')]))
          NoFault slot_empty inserted) = None
   \<and> fst (doCommand node world_D1 NoFault (Str ''Insert'') (Str ''U1'') (Str ''D1'') (Str ''k'') (Str ''r1''))
       = successResponse (Obj [(''sequenceNo'', Num (Fin 1))])
   \<and> trace (fst (snd (doCommand node world_D1 NoFault (Str ''Insert'') (Str ''U1'') (Str ''D1'') (Str ''k'') (Str ''r1''))))
       = trace world_D1 @
           [Memcache_pushTransaction inserted, Io_resolved (Ddb_put inserted),
            Memcache_transactionPersistedToDdb inserted, Connections_push (Str ''D1'') (Str ''U1'')]"
proof -
  let ?w1 = "snd (memcache_pushTransaction world_D1
            [(''database-id'', Str ''D1''), (''key'', Str ''k''), (''command'', Str ''Insert''), (''record'', Str ''r1'')])"
  have v: "truthy (Str ''D1'')" "truthy (Str ''k'')" "truthy (Str ''r1'')" by simp_all
  have put: "fst (ddb_put ?w1 NoFault slot_empty inserted) = None"
    by (simp add: ddb_put_def world_D1_push_table conditional_write_def slot_empty_def)
  have s: "get_member inserted ''sequence-no'' = Num (Fin 1)" by (simp add: inserted_def get_member_def)
  from commit_success_order [of "Str ''D1''" "Str ''k''" "Str ''r1''" world_D1 "Str ''Insert''" inserted ?w1
      NoFault node "Str ''U1''" Undefined "[]"] v world_D1_push put
  obtain w' where "doCommand node world_D1 NoFault (Str ''Insert'') (Str ''U1'') (Str ''D1'') (Str ''k'') (Str ''r1'')
       = (successResponse (Obj [(''sequenceNo'', get_member inserted ''sequence-no'')]), w', None)"
    "trace w' = trace world_D1 @
           [Memcache_pushTransaction inserted, Io_resolved (Ddb_put inserted),
            Memcache_transactionPersistedToDdb inserted, Connections_push (Str ''D1'') (Str ''U1'')]"
    by blast
  with s v world_D1_push put show ?thesis by simp
qed

lemma run_commit_rejected:
  assumes "begin_call E w c = (Inr (Await_put cl transaction t userId), w1)"
    and "putTransaction_settled E w1 f transaction t userId = (r, w', Some t')"
  shows "run E \<lparr>now = w, pending = [], responses = []\<rparr> [Begin c, Settle 0 f, Settle 0 f_rb]
         = \<lparr>now = rollbackTransaction w' f_rb t', pending = [],
            responses = [Resolved (commit_response E cl r)]\<rparr>"
  using assms by (simp add: run_def step_def settle_task_def)

text \<open>
  C4. A single command or a batch that passes its checks, gets a sequence number and
  whose \<^verbatim>\<open>put\<close> fails with an error \<open>e\<close>: the failure is logged with
  \<^verbatim>\<open>logger.warn\<close>, the call returns an internal error that carries \<open>e\<close>, and
  \<^verbatim>\<open>rollbackTransaction\<close> has been called for the numbered transaction and is not
  awaited. In the event loop the response is there when the \<^verbatim>\<open>put\<close> has settled;
  whatever the outcome \<open>f_rb\<close> of the rollback's own write, the responses stay the same.
\<close>

theorem commit_failure_surfaced:
  "(truthy databaseId \<and> truthy key \<and> truthy record
      \<and> memcache_pushTransaction w [(''database-id'', databaseId), (''key'', key),
                                    (''command'', command), (''record'', record)] = (Inr t, w1)
      \<and> fst (ddb_put w1 f slot_empty t) = Some e \<longrightarrow>
      (\<exists>w'. doCommand E w f command userId databaseId key record =
               (errorResponse Internal_Server_Error
                  (''Failed to '' @ to_string E command @ '' with Error: Failed with ''
                     @ error_to_string e @ ''.''), w', Some t)
           \<and> trace w' = trace w @
                [Memcache_pushTransaction t, Io_rejected (Ddb_put t) e,
                 Logger_warn (''Transaction '' @ to_string E (get_member t ''sequence-no'')
                     @ '' failed with '' @ error_to_string e @ ''! Rolling back...'')]
           \<and> (\<forall>f_rb. run E \<lparr>now = w, pending = [], responses = []\<rparr>
                         [Begin (DoCommand command userId databaseId key record), Settle 0 f, Settle 0 f_rb]
                 = \<lparr>now = rollbackTransaction w' f_rb t, pending = [],
                    responses = [Resolved (errorResponse Internal_Server_Error
                      (''Failed to '' @ to_string E command @ '' with Error: Failed with ''
                         @ error_to_string e @ ''.''))]\<rparr>)))
   \<and> (truthy databaseId \<and> truthy operations \<and> truthy (js_length operations)
      \<and> batch_loop E operations 0 [] = Resolved (Inr ops)
      \<and> memcache_pushTransaction w [(''database-id'', databaseId), (''command'', Str ''Batch''),
                                    (''operations'', Arr ops)] = (Inr t, w1)
      \<and> fst (ddb_put w1 f slot_empty t) = Some e \<longrightarrow>
      (\<exists>w'. batch E w f userId databaseId operations =
               (Resolved (errorResponse Internal_Server_Error
                  (''Failed to batch with Error: Failed with '' @ error_to_string e @ ''.'')), w', Some t)
           \<and> trace w' = trace w @
                [Memcache_pushTransaction t, Io_rejected (Ddb_put t) e,
                 Logger_warn (''Transaction '' @ to_string E (get_member t ''sequence-no'')
                     @ '' failed with '' @ error_to_string e @ ''! Rolling back...'')]
           \<and> (\<forall>f_rb. run E \<lparr>now = w, pending = [], responses = []\<rparr>
                         [Begin (Batch userId databaseId operations), Settle 0 f, Settle 0 f_rb]
                 = \<lparr>now = rollbackTransaction w' f_rb t, pending = [],
                    responses = [Resolved (errorResponse Internal_Server_Error
                      (''Failed to batch with Error: Failed with '' @ error_to_string e @ ''.''))]\<rparr>)))"
proof (intro conjI impI)
  define transaction where "transaction = [(''database-id'', databaseId), (''key'', key),
                                    (''command'', command), (''record'', record)]"
  assume a: "truthy databaseId \<and> truthy key \<and> truthy record
      \<and> memcache_pushTransaction w [(''database-id'', databaseId), (''key'', key),
                                    (''command'', command), (''record'', record)] = (Inr t, w1)
      \<and> fst (ddb_put w1 f slot_empty t) = Some e"
  then have v: "truthy databaseId" "truthy key" "truthy record"
    and push: "memcache_pushTransaction w transaction = (Inr t, w1)"
    and put: "fst (ddb_put w1 f slot_empty t) = Some e" by (simp_all add: transaction_def)
  from putTransaction_rejected [OF push put, of E userId]
  obtain w' where p: "putTransaction E w f transaction userId =
                 (Inl (new_Error (''Failed with '' @ error_to_string e @ ''.'')), w', Some t)"
    and ps: "putTransaction_settled E w1 f transaction t userId =
                 (Inl (new_Error (''Failed with '' @ error_to_string e @ ''.'')), w', Some t)"
    and tr: "trace w' = trace w @
                 [Memcache_pushTransaction t, Io_rejected (Ddb_put t) e,
                  Logger_warn (''Transaction '' @ to_string E (get_member t ''sequence-no'')
                     @ '' failed with '' @ error_to_string e @ ''! Rolling back...'')]"
    by blast
  have d: "doCommand E w f command userId databaseId key record =
               (errorResponse Internal_Server_Error
                  (''Failed to '' @ to_string E command @ '' with Error: Failed with ''
                     @ error_to_string e @ ''.''), w', Some t)"
    using v p by (simp add: doCommand_def transaction_def)
  have b: "begin_call E w (DoCommand command userId databaseId key record)
             = (Inr (Await_put (From_doCommand command) transaction t userId), w1)"
    using v push by (simp add: begin_call_def begin_put_def transaction_def)
  have "\<forall>f_rb. run E \<lparr>now = w, pending = [], responses = []\<rparr>
                         [Begin (DoCommand command userId databaseId key record), Settle 0 f, Settle 0 f_rb]
                 = \<lparr>now = rollbackTransaction w' f_rb t, pending = [],
                    responses = [Resolved (errorResponse Internal_Server_Error
                      (''Failed to '' @ to_string E command @ '' with Error: Failed with ''
                         @ error_to_string e @ ''.''))]\<rparr>"
    using run_commit_rejected [OF b ps] by (simp add: commit_response_def)
  with d tr show "\<exists>w'. doCommand E w f command userId databaseId key record =
               (errorResponse Internal_Server_Error
                  (''Failed to '' @ to_string E command @ '' with Error: Failed with ''
                     @ error_to_string e @ ''.''), w', Some t)
           \<and> trace w' = trace w @
                [Memcache_pushTransaction t, Io_rejected (Ddb_put t) e,
                 Logger_warn (''Transaction '' @ to_string E (get_member t ''sequence-no'')
                     @ '' failed with '' @ error_to_string e @ ''! Rolling back...'')]
           \<and> (\<forall>f_rb. run E \<lparr>now = w, pending = [], responses = []\<rparr>
                         [Begin (DoCommand command userId databaseId key record), Settle 0 f, Settle 0 f_rb]
                 = \<lparr>now = rollbackTransaction w' f_rb t, pending = [],
                    responses = [Resolved (errorResponse Internal_Server_Error
                      (''Failed to '' @ to_string E command @ '' with Error: Failed with ''
                         @ error_to_string e @ ''.''))]\<rparr>)"
    by blast
next
  define transaction where "transaction = [(''database-id'', databaseId), (''command'', Str ''Batch''),
                                    (''operations'', Arr ops)]"
  assume a: "truthy databaseId \<and> truthy operations \<and> truthy (js_length operations)
      \<and> batch_loop E operations 0 [] = Resolved (Inr ops)
      \<and> memcache_pushTransaction w [(''database-id'', databaseId), (''command'', Str ''Batch''),
                                    (''operations'', Arr ops)] = (Inr t, w1)
      \<and> fst (ddb_put w1 f slot_empty t) = Some e"
  then have v: "truthy databaseId" "truthy operations" "truthy (js_length operations)"
      "batch_loop E operations 0 [] = Resolved (Inr ops)"
    and push: "memcache_pushTransaction w transaction = (Inr t, w1)"
    and put: "fst (ddb_put w1 f slot_empty t) = Some e" by (simp_all add: transaction_def)
  from putTransaction_rejected [OF push put, of E userId]
  obtain w' where p: "putTransaction E w f transaction userId =
                 (Inl (new_Error (''Failed with '' @ error_to_string e @ ''.'')), w', Some t)"
    and ps: "putTransaction_settled E w1 f transaction t userId =
                 (Inl (new_Error (''Failed with '' @ error_to_string e @ ''.'')), w', Some t)"
    and tr: "trace w' = trace w @
                 [Memcache_pushTransaction t, Io_rejected (Ddb_put t) e,
                  Logger_warn (''Transaction '' @ to_string E (get_member t ''sequence-no'')
                     @ '' failed with '' @ error_to_string e @ ''! Rolling back...'')]"
    by blast
  have d: "batch E w f userId databaseId operations =
               (Resolved (errorResponse Internal_Server_Error
                  (''Failed to batch with Error: Failed with '' @ error_to_string e @ ''.'')), w', Some t)"
    using v p by (simp add: batch_def transaction_def)
  have b: "begin_call E w (Batch userId databaseId operations)
             = (Inr (Await_put From_batch transaction t userId), w1)"
    using v push by (simp add: begin_call_def begin_put_def transaction_def)
  have "\<forall>f_rb. run E \<lparr>now = w, pending = [], responses = []\<rparr>
                         [Begin (Batch userId databaseId operations), Settle 0 f, Settle 0 f_rb]
                 = \<lparr>now = rollbackTransaction w' f_rb t, pending = [],
                    responses = [Resolved (errorResponse Internal_Server_Error
                      (''Failed to batch with Error: Failed with '' @ error_to_string e @ ''.''))]\<rparr>"
    using run_commit_rejected [OF b ps] by (simp add: commit_response_def)
  with d tr show "\<exists>w'. batch E w f userId databaseId operations =
               (Resolved (errorResponse Internal_Server_Error
                  (''Failed to batch with Error: Failed with '' @ error_to_string e @ ''.'')), w', Some t)
           \<and> trace w' = trace w @
                [Memcache_pushTransaction t, Io_rejected (Ddb_put t) e,
                 Logger_warn (''Transaction '' @ to_string E (get_member t ''sequence-no'')
                     @ '' failed with '' @ error_to_string e @ ''! Rolling back...'')]
           \<and> (\<forall>f_rb. run E \<lparr>now = w, pending = [], responses = []\<rparr>
                         [Begin (Batch userId databaseId operations), Settle 0 f, Settle 0 f_rb]
                 = \<lparr>now = rollbackTransaction w' f_rb t, pending = [],
                    responses = [Resolved (errorResponse Internal_Server_Error
                      (''Failed to batch with Error: Failed with '' @ error_to_string e @ ''.''))]\<rparr>)"
    by blast
qed

theorem commit_failure_surfaced_witness:
  "truthy (Str ''D1'') \<and> truthy (Str ''k'') \<and> truthy (Str ''r1'')
   \<and> memcache_pushTransaction world_D1
        [(''database-id'', Str ''D1''), (''key'', Str ''k''), (''command'', Str ''Insert''), (''record'', Str ''r1'')]
       = (Inr inserted,
          snd (memcache_pushTransaction world_D1
            [(''database-id'', Str ''D1''), (''key'', Str ''k''), (''command'', Str ''Insert''), (''record'', Str ''r1'')]))
   \<and> fst (ddb_put (snd (memcache_pushTransaction world_D1
            [(''database-id'', Str ''D1''), (''key'', Str ''k''), (''command'', Str ''Insert''), (''record'', Str ''r1'')]))
          (FailBefore lost_reply) slot_empty inserted) = Some lost_reply
   \<and> fst (doCommand node world_D1 (FailBefore lost_reply) (Str ''Insert'') (Str ''U1'') (Str ''D1'') (Str ''k'') (Str ''r1''))
       = errorResponse Internal_Server_Error
           ''Failed to Insert with Error: Failed with TimeoutError: Connection timed out.''
   \<and> snd (snd (doCommand node world_D1 (FailBefore lost_reply) (Str ''Insert'') (Str ''U1'') (Str ''D1'') (Str ''k'') (Str ''r1'')))
       = Some inserted
   \<and> responses (run node \<lparr>now = world_D1, pending = [], responses = []\<rparr>
        [Begin (DoCommand (Str ''Insert'') (Str ''U1'') (Str ''D1'') (Str ''k'') (Str ''r1'')),
         Settle 0 (FailBefore lost_reply), Settle 0 NoFault])
       = [Resolved (errorResponse Internal_Server_Error
           ''Failed to Insert with Error: Failed with TimeoutError: Connection timed out.'')]"
proof -
  let ?w1 = "snd (memcache_pushTransaction world_D1
            [(''database-id'', Str ''D1''), (''key'', Str ''k''), (''command'', Str ''Insert''), (''record'', Str ''r1'')])"
  have v: "truthy (Str ''D1'')" "truthy (Str ''k'')" "truthy (Str ''r1'')" by simp_all
  have put: "fst (ddb_put ?w1 (FailBefore lost_reply) slot_empty inserted) = Some lost_reply"
    by (simp add: ddb_put_def conditional_write_def)
  have s: "''Failed to '' @ to_string node (Str ''Insert'') @ '' with Error: Failed with ''
             @ error_to_string lost_reply @ ''.''
           = ''Failed to Insert with Error: Failed with TimeoutError: Connection timed out.''"
    by (simp add: error_to_string_def lost_reply_def)
  from commit_failure_surfaced [of "Str ''D1''" "Str ''k''" "Str ''r1''" world_D1 "Str ''Insert''" inserted ?w1
      "FailBefore lost_reply" lost_reply node "Str ''U1''" Undefined "[]"] v world_D1_push put
  obtain w' where d: "doCommand node world_D1 (FailBefore lost_reply) (Str ''Insert'') (Str ''U1'') (Str ''D1'')
                        (Str ''k'') (Str ''r1'')
       = (errorResponse Internal_Server_Error
            (''Failed to '' @ to_string node (Str ''Insert'') @ '' with Error: Failed with ''
               @ error_to_string lost_reply @ ''.''), w', Some inserted)"
    and l: "\<forall>f_rb. run node \<lparr>now = world_D1, pending = [], responses = []\<rparr>
                  [Begin (DoCommand (Str ''Insert'') (Str ''U1'') (Str ''D1'') (Str ''k'') (Str ''r1'')),
                   Settle 0 (FailBefore lost_reply), Settle 0 f_rb]
            = \<lparr>now = rollbackTransaction w' f_rb inserted, pending = [],
               responses = [Resolved (errorResponse Internal_Server_Error
                 (''Failed to '' @ to_string node (Str ''Insert'') @ '' with Error: Failed with ''
                    @ error_to_string lost_reply @ ''.''))]\<rparr>"
    by blast
  from l have "responses (run node \<lparr>now = world_D1, pending = [], responses = []\<rparr>
        [Begin (DoCommand (Str ''Insert'') (Str ''U1'') (Str ''D1'') (Str ''k'') (Str ''r1'')),
         Settle 0 (FailBefore lost_reply), Settle 0 NoFault])
       = [Resolved (errorResponse Internal_Server_Error
            (''Failed to '' @ to_string node (Str ''Insert'') @ '' with Error: Failed with ''
               @ error_to_string lost_reply @ ''.''))]"
    by simp
  with d v world_D1_push put show ?thesis unfolding s by simp
qed

lemma assigned_append [simp]: "assigned D (xs @ ys) = assigned D xs @ assigned D ys"
  by (induction D xs rule: assigned.induct) simp_all

lemma push_assigns:
  assumes "memcache_pushTransaction w transaction = (r, w1)"
    and "transactionLog w D = Some n"
  shows "(assigned D (trace w1) = assigned D (trace w) \<and> transactionLog w1 D = Some n)
       \<or> (assigned D (trace w1) = assigned D (trace w) @ [Num (Fin (of_nat n))]
          \<and> transactionLog w1 D = Some (Suc n))"
proof (cases "transactionLog w (get_member transaction ''database-id'')")
  case None
  with assms show ?thesis by (simp add: memcache_pushTransaction_def)
next
  case (Some m)
  show ?thesis
  proof (cases "get_member transaction ''database-id'' = D")
    case True
    with Some assms show ?thesis by (auto simp: memcache_pushTransaction_def Let_def)
  next
    case False
    with Some assms show ?thesis by (auto simp: memcache_pushTransaction_def Let_def)
  qed
qed

lemma putTransaction_settled_assigns:
  assumes "putTransaction_settled E w f transaction t userId = (r, w', rb)"
  shows "assigned D (trace w') = assigned D (trace w) \<and> transactionLog w' = transactionLog w"
proof -
  obtain r1 w1 where p: "ddb_put w f slot_empty t = (r1, w1)" by (cases "ddb_put w f slot_empty t")
  from ddb_put_trace [OF p] have "assigned D (trace w1) = assigned D (trace w)"
    by (cases r1) simp_all
  with assms p ddb_put_frame(4) [OF p] show ?thesis
    by (cases r1) (auto simp: putTransaction_settled_def)
qed

lemma rollbackTransaction_assigns:
  "assigned D (trace (rollbackTransaction w f t)) = assigned D (trace w)
   \<and> transactionLog (rollbackTransaction w f t) = transactionLog w"
proof -
  obtain r1 w1 where p: "ddb_put w f rollback_condition (transactionWithRollbackCommand t) = (r1, w1)"
    by (cases "ddb_put w f rollback_condition (transactionWithRollbackCommand t)")
  from ddb_put_trace [OF p] have "assigned D (trace w1) = assigned D (trace w)"
    by (cases r1) simp_all
  with p ddb_put_frame(4) [OF p] show ?thesis
    by (cases r1) (auto simp: rollbackTransaction_def)
qed

lemma begin_call_assigns:
  assumes "begin_call E w c = (r, w1)"
    and "transactionLog w D = Some n"
  shows "(assigned D (trace w1) = assigned D (trace w) \<and> transactionLog w1 D = Some n)
       \<or> (assigned D (trace w1) = assigned D (trace w) @ [Num (Fin (of_nat n))]
          \<and> transactionLog w1 D = Some (Suc n))"
proof -
  have "w1 = w \<or> (\<exists>transaction r1. memcache_pushTransaction w transaction = (r1, w1))"
    using assms(1)
    by (fastforce simp: begin_call_def begin_put_def
          split: call.splits if_splits prod.splits sum.splits completion.splits)
  then show ?thesis
  proof
    assume "w1 = w"
    with assms(2) show ?thesis by simp
  next
    assume "\<exists>transaction r1. memcache_pushTransaction w transaction = (r1, w1)"
    then obtain transaction r1 where "memcache_pushTransaction w transaction = (r1, w1)" by blast
    from push_assigns [OF this assms(2)] show ?thesis .
  qed
qed

lemma step_assigns:
  assumes "transactionLog (now s) D = Some n"
  shows "(assigned D (trace (now (step E s ev))) = assigned D (trace (now s))
          \<and> transactionLog (now (step E s ev)) D = Some n)
       \<or> (assigned D (trace (now (step E s ev))) = assigned D (trace (now s)) @ [Num (Fin (of_nat n))]
          \<and> transactionLog (now (step E s ev)) D = Some (Suc n))"
proof (cases ev)
  case (Begin c)
  obtain r w1 where b: "begin_call E (now s) c = (r, w1)" by (cases "begin_call E (now s) c")
  then have "now (step E s ev) = w1" using Begin by (cases r) (simp_all add: step_def)
  with begin_call_assigns [OF b assms] show ?thesis by simp
next
  case (Settle i f)
  show ?thesis
  proof (cases "i < length (pending s)")
    case False
    with Settle assms show ?thesis by (simp add: step_def)
  next
    case True
    show ?thesis
    proof (cases "pending s ! i")
      case (Await_put c transaction t userId)
      obtain r w' rb where p: "putTransaction_settled E (now s) f transaction t userId = (r, w', rb)"
        by (cases "putTransaction_settled E (now s) f transaction t userId")
      with True Settle Await_put have "now (step E s ev) = w'"
        by (simp add: step_def settle_task_def)
      with putTransaction_settled_assigns [OF p, of D] assms show ?thesis by simp
    next
      case (Await_rollback t)
      with True Settle have "now (step E s ev) = rollbackTransaction (now s) f t"
        by (simp add: step_def settle_task_def)
      with rollbackTransaction_assigns [of D "now s" f t] assms show ?thesis by simp
    qed
  qed
qed

lemma run_assigns:
  assumes "transactionLog (now s) D = Some n"
  shows "\<exists>k. assigned D (trace (now (run E s evs)))
                = assigned D (trace (now s)) @ map (\<lambda>i. Num (Fin (of_nat i))) [n ..< n + k]
            \<and> transactionLog (now (run E s evs)) D = Some (n + k)"
  using assms
proof (induction evs arbitrary: s n)
  case Nil
  then have "assigned D (trace (now (run E s [])))
                = assigned D (trace (now s)) @ map (\<lambda>i. Num (Fin (of_nat i))) [n ..< n + 0]
            \<and> transactionLog (now (run E s [])) D = Some (n + 0)"
    by (simp add: run_def)
  then show ?case by blast
next
  case (Cons ev evs)
  have r: "run E s (ev # evs) = run E (step E s ev) evs" by (simp add: run_def)
  from step_assigns [OF Cons.prems, of E ev] show ?case
  proof
    assume a: "assigned D (trace (now (step E s ev))) = assigned D (trace (now s))
          \<and> transactionLog (now (step E s ev)) D = Some n"
    from Cons.IH [of "step E s ev" n] a r show ?thesis by simp
  next
    assume a: "assigned D (trace (now (step E s ev))) = assigned D (trace (now s)) @ [Num (Fin (of_nat n))]
          \<and> transactionLog (now (step E s ev)) D = Some (Suc n)"
    then obtain k where k: "assigned D (trace (now (run E (step E s ev) evs)))
                = assigned D (trace (now (step E s ev))) @ map (\<lambda>i. Num (Fin (of_nat i))) [Suc n ..< Suc n + k]"
            "transactionLog (now (run E (step E s ev) evs)) D = Some (Suc n + k)"
      using Cons.IH [of "step E s ev" "Suc n"] by blast
    have "[n ..< n + Suc k] = n # [Suc n ..< Suc n + k]" by (simp add: upt_conv_Cons)
    with k a r have "assigned D (trace (now (run E s (ev # evs))))
                = assigned D (trace (now s)) @ map (\<lambda>i. Num (Fin (of_nat i))) [n ..< n + Suc k]
            \<and> transactionLog (now (run E s (ev # evs))) D = Some (n + Suc k)"
      by simp
    then show ?thesis by blast
  qed
qed

lemma createDatabase_success:
  assumes "createDatabase w0 f userId dbNameHash D encryptedDbName encryptedDbKey encryptedMetadata
             = (successResponse r, w)"
  shows "transactionLog w D = Some initial_sequence_no"
  using assms
  by (auto simp: createDatabase_def Let_def memcache_initTransactionLog_def
        split: if_splits prod.splits option.splits)

text \<open>
  C5. After \<^verbatim>\<open>createDatabase\<close> has succeeded for a database, take any schedule of
  commit calls (single commands and batches, for this and for other databases) and of
  completions of their store calls, in any interleaving and with any outcomes. The
  sequence numbers that the cache assigns for the database during the schedule are, in
  the order of assignment, the initial sequence number and its successors without a gap,
  and they are pairwise distinct: the assignment happens in the first piece of a call,
  which runs without suspension.
\<close>

theorem sequence_numbers_contiguous:
  assumes "createDatabase w0 f userId dbNameHash D encryptedDbName encryptedDbKey encryptedMetadata
             = (successResponse r, w)"
    and "now s = w"
  shows "\<exists>k. drop (length (assigned D (trace w))) (assigned D (trace (now (run E s evs))))
               = map (\<lambda>i. Num (Fin (of_nat i))) [initial_sequence_no ..< initial_sequence_no + k]
           \<and> distinct (drop (length (assigned D (trace w))) (assigned D (trace (now (run E s evs)))))"
proof -
  from createDatabase_success [OF assms(1)] assms(2)
  have "transactionLog (now s) D = Some initial_sequence_no" by simp
  from run_assigns [OF this, of E evs] assms(2)
  obtain k where k: "assigned D (trace (now (run E s evs)))
        = assigned D (trace w) @ map (\<lambda>i. Num (Fin (of_nat i))) [initial_sequence_no ..< initial_sequence_no + k]"
    by auto
  have "distinct (map (\<lambda>i. Num (Fin (rat_of_nat i))) [initial_sequence_no ..< initial_sequence_no + k])"
    by (simp add: distinct_map inj_on_def)
  with k show ?thesis by auto
qed

lemma world_D1_created:
  "createDatabase empty_world NoFault (Str ''U1'') (Str ''H1'') (Str ''D1'') (Str ''name'') (Str ''K1'') Undefined
     = (successResponse (Str ''Success!''), world_D1)"
  by (simp add: prod_eq_iff world_D1_def)
     (simp add: createDatabase_def ddb_transactWrite_def conditional_write_def empty_world_def
        get_member_def Let_def)

lemma world_D1_assigned: "assigned (Str ''D1'') (trace world_D1) = []"
  by (simp add: world_D1_def createDatabase_def ddb_transactWrite_def conditional_write_def
        empty_world_def get_member_def memcache_initTransactionLog_def Let_def)

lemma two_commits_assigned:
  "assigned (Str ''D1'') (trace (now (run node \<lparr>now = world_D1, pending = [], responses = []\<rparr> two_commits)))
     = [Num (Fin 1), Num (Fin 2)]"
  by (simp add: two_commits_def run_def step_def begin_call_def begin_put_def memcache_pushTransaction_def
        world_D1_more world_D1_assigned get_member_def batch_loop.simps nullish_def
        settle_task_def putTransaction_settled_def ddb_put_def conditional_write_def slot_of_def
        slot_empty_def Let_def)

lemma two_commits_responses:
  "responses (run node \<lparr>now = world_D1, pending = [], responses = []\<rparr> two_commits)
     = [Resolved (successResponse (Obj [(''sequenceNo'', Num (Fin 2))])),
        Resolved (successResponse (Obj [(''sequenceNo'', Num (Fin 1))]))]"
  by (simp add: two_commits_def run_def step_def begin_call_def begin_put_def memcache_pushTransaction_def
        world_D1_more world_D1_assigned get_member_def batch_loop.simps nullish_def
        settle_task_def putTransaction_settled_def ddb_put_def conditional_write_def slot_of_def
        slot_empty_def commit_response_def Let_def)

theorem sequence_numbers_contiguous_witness:
  "createDatabase empty_world NoFault (Str ''U1'') (Str ''H1'') (Str ''D1'') (Str ''name'') (Str ''K1'') Undefined
     = (successResponse (Str ''Success!''), world_D1)
   \<and> now \<lparr>now = world_D1, pending = [], responses = []\<rparr> = world_D1
   \<and> drop (length (assigned (Str ''D1'') (trace world_D1)))
        (assigned (Str ''D1'')
           (trace (now (run node \<lparr>now = world_D1, pending = [], responses = []\<rparr> two_commits))))
       = [Num (Fin 1), Num (Fin 2)]
   \<and> (\<exists>k. drop (length (assigned (Str ''D1'') (trace world_D1)))
              (assigned (Str ''D1'')
                 (trace (now (run node \<lparr>now = world_D1, pending = [], responses = []\<rparr> two_commits))))
             = map (\<lambda>i. Num (Fin (of_nat i))) [initial_sequence_no ..< initial_sequence_no + k])"
proof -
  have h2: "now \<lparr>now = world_D1, pending = [], responses = []\<rparr> = world_D1" by simp
  from sequence_numbers_contiguous [OF world_D1_created h2, where E = node and evs = two_commits]
  have "\<exists>k. drop (length (assigned (Str ''D1'') (trace world_D1)))
              (assigned (Str ''D1'')
                 (trace (now (run node \<lparr>now = world_D1, pending = [], responses = []\<rparr> two_commits))))
             = map (\<lambda>i. Num (Fin (of_nat i))) [initial_sequence_no ..< initial_sequence_no + k]"
    by blast
  moreover have "drop (length (assigned (Str ''D1'') (trace world_D1)))
        (assigned (Str ''D1'')
           (trace (now (run node \<lparr>now = world_D1, pending = [], responses = []\<rparr> two_commits))))
       = [Num (Fin 1), Num (Fin 2)]"
    by (simp add: two_commits_assigned world_D1_assigned)
  ultimately show ?thesis using world_D1_created h2 by blast
qed

section \<open>Reading a bundle back\<close>








section \<open>Creating a database\<close>

text \<open>
  C6. For arguments that pass the checks of \<^verbatim>\<open>createDatabase\<close>: the call writes the
  database item and the user's item together or neither of them, and it writes them
  only if the table holds no item for \<open>dbId\<close> and none for the user's name hash. When
  one of the two exists already and the store answers, the call fails with conflict and
  both tables stay as they are (they stay so whatever the store answers). When the store
  call fails with an error whose message does not contain \<^verbatim>\<open>ConditionalCheckFailed\<close>,
  the call returns an internal error. When neither item exists and the store answers,
  the call succeeds and both items are in their tables, every other item as before; the
  write is recorded and the cache starts the log of the database.
\<close>

theorem createDatabase_both_or_neither:
  assumes "truthy dbNameHash" and "truthy dbId" and "truthy encryptedDbName" and "truthy encryptedDbKey"
    and "createDatabase w f userId dbNameHash dbId encryptedDbName encryptedDbKey encryptedMetadata = (resp, w')"
  shows "((databaseTable w' = databaseTable w \<and> userDatabaseTable w' = userDatabaseTable w)
          \<or> (databaseTable w dbId = None \<and> userDatabaseTable w (userId, dbNameHash) = None
             \<and> databaseTable w' = (databaseTable w)(dbId \<mapsto>
                  [(''database-id'', dbId), (''owner-id'', userId),
                   (''database-name'', encryptedDbName), (''metadata'', encryptedMetadata)])
             \<and> userDatabaseTable w' = (userDatabaseTable w)((userId, dbNameHash) \<mapsto>
                  [(''user-id'', userId), (''database-name-hash'', dbNameHash),
                   (''database-id'', dbId), (''encrypted-db-key'', encryptedDbKey)])))
       \<and> (databaseTable w dbId \<noteq> None \<or> userDatabaseTable w (userId, dbNameHash) \<noteq> None \<longrightarrow>
             databaseTable w' = databaseTable w \<and> userDatabaseTable w' = userDatabaseTable w
             \<and> (f = NoFault \<longrightarrow> resp = errorResponse Conflict ''Database already exists''))
       \<and> (\<forall>e. (f = FailBefore e \<or> f = FailAfter e) \<and> \<not> str_includes (message e) ''ConditionalCheckFailed'' \<longrightarrow>
             resp = errorResponse Internal_Server_Error (''Failed to create database with '' @ error_to_string e))
       \<and> (f = NoFault \<and> databaseTable w dbId = None \<and> userDatabaseTable w (userId, dbNameHash) = None \<longrightarrow>
             resp = successResponse (Str ''Success!'')
             \<and> databaseTable w' = (databaseTable w)(dbId \<mapsto>
                  [(''database-id'', dbId), (''owner-id'', userId),
                   (''database-name'', encryptedDbName), (''metadata'', encryptedMetadata)])
             \<and> userDatabaseTable w' = (userDatabaseTable w)((userId, dbNameHash) \<mapsto>
                  [(''user-id'', userId), (''database-name-hash'', dbNameHash),
                   (''database-id'', dbId), (''encrypted-db-key'', encryptedDbKey)])
             \<and> trace w' = trace w @
                  [Io_resolved (Ddb_transactWrite
                     [(''database-id'', dbId), (''owner-id'', userId),
                      (''database-name'', encryptedDbName), (''metadata'', encryptedMetadata)]
                     [(''user-id'', userId), (''database-name-hash'', dbNameHash),
                      (''database-id'', dbId), (''encrypted-db-key'', encryptedDbKey)]),
                   Memcache_initTransactionLog dbId])"
proof -
  define database where "database = [(''database-id'', dbId), (''owner-id'', userId),
                   (''database-name'', encryptedDbName), (''metadata'', encryptedMetadata)]"
  define userDatabase where "userDatabase = [(''user-id'', userId), (''database-name-hash'', dbNameHash),
                   (''database-id'', dbId), (''encrypted-db-key'', encryptedDbKey)]"
  have keys: "get_member database ''database-id'' = dbId" "get_member userDatabase ''user-id'' = userId"
    "get_member userDatabase ''database-name-hash'' = dbNameHash"
    by (simp_all add: database_def userDatabase_def get_member_def)
  obtain r w1 where tw: "ddb_transactWrite w f database userDatabase = (r, w1)"
    by (cases "ddb_transactWrite w f database userDatabase")
  have out: "(resp, w') =
      (case r of
         None \<Rightarrow> (successResponse (Str ''Success!''), memcache_initTransactionLog w1 dbId)
       | Some e \<Rightarrow>
           (if message e \<noteq> [] \<and> str_includes (message e) ''ConditionalCheckFailed''
            then (errorResponse Conflict ''Database already exists'', w1)
            else (errorResponse Internal_Server_Error
                    (''Failed to create database with '' @ error_to_string e), w1)))"
    using assms tw by (simp add: createDatabase_def Let_def database_def userDatabase_def)
  have tabs: "databaseTable w' = databaseTable w1" "userDatabaseTable w' = userDatabaseTable w1"
    using out by (auto simp: memcache_initTransactionLog_def split: option.splits if_splits)
  note cases = ddb_transactWrite_cases [OF tw, unfolded keys]
  note res = ddb_transactWrite_result [OF tw, unfolded keys]
  have 1: "(databaseTable w' = databaseTable w \<and> userDatabaseTable w' = userDatabaseTable w)
          \<or> (databaseTable w dbId = None \<and> userDatabaseTable w (userId, dbNameHash) = None
             \<and> databaseTable w' = (databaseTable w)(dbId \<mapsto> database)
             \<and> userDatabaseTable w' = (userDatabaseTable w)((userId, dbNameHash) \<mapsto> userDatabase))"
    using cases tabs by simp
  have 2: "databaseTable w dbId \<noteq> None \<or> userDatabaseTable w (userId, dbNameHash) \<noteq> None \<longrightarrow>
             databaseTable w' = databaseTable w \<and> userDatabaseTable w' = userDatabaseTable w
             \<and> (f = NoFault \<longrightarrow> resp = errorResponse Conflict ''Database already exists'')"
  proof
    assume ex: "databaseTable w dbId \<noteq> None \<or> userDatabaseTable w (userId, dbNameHash) \<noteq> None"
    with cases tabs have same: "databaseTable w' = databaseTable w \<and> userDatabaseTable w' = userDatabaseTable w"
      by auto
    have "f = NoFault \<longrightarrow> resp = errorResponse Conflict ''Database already exists''"
    proof
      assume "f = NoFault"
      with res ex have "r = Some (TransactionCanceledException (databaseTable w dbId = None)
                          (userDatabaseTable w (userId, dbNameHash) = None))" by auto
      moreover from ex have "\<not> (databaseTable w dbId = None \<and> userDatabaseTable w (userId, dbNameHash) = None)"
        by auto
      ultimately show "resp = errorResponse Conflict ''Database already exists''"
        using out canceled_includes by simp
    qed
    with same show "databaseTable w' = databaseTable w \<and> userDatabaseTable w' = userDatabaseTable w
             \<and> (f = NoFault \<longrightarrow> resp = errorResponse Conflict ''Database already exists'')" by simp
  qed
  have 3: "\<forall>e. (f = FailBefore e \<or> f = FailAfter e) \<and> \<not> str_includes (message e) ''ConditionalCheckFailed'' \<longrightarrow>
             resp = errorResponse Internal_Server_Error (''Failed to create database with '' @ error_to_string e)"
    using res out by auto
  have 4: "f = NoFault \<and> databaseTable w dbId = None \<and> userDatabaseTable w (userId, dbNameHash) = None \<longrightarrow>
             resp = successResponse (Str ''Success!'')
             \<and> databaseTable w' = (databaseTable w)(dbId \<mapsto> database)
             \<and> userDatabaseTable w' = (userDatabaseTable w)((userId, dbNameHash) \<mapsto> userDatabase)
             \<and> trace w' = trace w @ [Io_resolved (Ddb_transactWrite database userDatabase),
                                     Memcache_initTransactionLog dbId]"
  proof
    assume free: "f = NoFault \<and> databaseTable w dbId = None \<and> userDatabaseTable w (userId, dbNameHash) = None"
    with tw keys have r: "r = None"
      and w1: "databaseTable w1 = (databaseTable w)(dbId \<mapsto> database)"
        "userDatabaseTable w1 = (userDatabaseTable w)((userId, dbNameHash) \<mapsto> userDatabase)"
        "trace w1 = trace w @ [Io_resolved (Ddb_transactWrite database userDatabase)]"
      by (auto simp: ddb_transactWrite_def conditional_write_def settle_def emit_def Let_def)
    from out r have "resp = successResponse (Str ''Success!'')"
      and "w' = memcache_initTransactionLog w1 dbId" by simp_all
    with w1 tabs show "resp = successResponse (Str ''Success!'')
             \<and> databaseTable w' = (databaseTable w)(dbId \<mapsto> database)
             \<and> userDatabaseTable w' = (userDatabaseTable w)((userId, dbNameHash) \<mapsto> userDatabase)
             \<and> trace w' = trace w @ [Io_resolved (Ddb_transactWrite database userDatabase),
                                     Memcache_initTransactionLog dbId]"
      by (simp add: memcache_initTransactionLog_def emit_def)
  qed
  from 1 2 3 4 show ?thesis unfolding database_def userDatabase_def by blast
qed

theorem createDatabase_both_or_neither_witness:
  "truthy (Str ''H2'') \<and> truthy (Str ''D1'') \<and> truthy (Str ''D2'') \<and> truthy (Str ''name2'') \<and> truthy (Str ''K2'')
   \<and> databaseTable world_D1 (Str ''D1'') \<noteq> None
   \<and> fst (createDatabase world_D1 NoFault (Str ''U2'') (Str ''H2'') (Str ''D1'') (Str ''name2'') (Str ''K2'') Undefined)
       = errorResponse Conflict ''Database already exists''
   \<and> databaseTable (snd (createDatabase world_D1 NoFault (Str ''U2'') (Str ''H2'') (Str ''D1'') (Str ''name2'') (Str ''K2'') Undefined))
       = databaseTable world_D1
   \<and> userDatabaseTable (snd (createDatabase world_D1 NoFault (Str ''U2'') (Str ''H2'') (Str ''D1'') (Str ''name2'') (Str ''K2'') Undefined))
       = userDatabaseTable world_D1
   \<and> databaseTable world_D1 (Str ''D2'') = None
   \<and> userDatabaseTable world_D1 (Str ''U2'', Str ''H2'') = None
   \<and> fst (createDatabase world_D1 NoFault (Str ''U2'') (Str ''H2'') (Str ''D2'') (Str ''name2'') (Str ''K2'') Undefined)
       = successResponse (Str ''Success!'')
   \<and> databaseTable (snd (createDatabase world_D1 NoFault (Str ''U2'') (Str ''H2'') (Str ''D2'') (Str ''name2'') (Str ''K2'') Undefined))
       = (databaseTable world_D1)(Str ''D2'' \<mapsto>
            [(''database-id'', Str ''D2''), (''owner-id'', Str ''U2''),
             (''database-name'', Str ''name2''), (''metadata'', Undefined)])
   \<and> userDatabaseTable (snd (createDatabase world_D1 NoFault (Str ''U2'') (Str ''H2'') (Str ''D2'') (Str ''name2'') (Str ''K2'') Undefined))
       = (userDatabaseTable world_D1)((Str ''U2'', Str ''H2'') \<mapsto>
            [(''user-id'', Str ''U2''), (''database-name-hash'', Str ''H2''),
             (''database-id'', Str ''D2''), (''encrypted-db-key'', Str ''K2'')])
   \<and> databaseTable (snd (createDatabase world_D1 NoFault (Str ''U2'') (Str ''H2'') (Str ''D2'') (Str ''name2'') (Str ''K2'') Undefined))
        (Str ''D2'') \<noteq> databaseTable world_D1 (Str ''D2'')"
proof -
  have h1: "truthy (Str ''H2'')" and h2: "truthy (Str ''D1'')" and h2': "truthy (Str ''D2'')"
    and h3: "truthy (Str ''name2'')" and h4: "truthy (Str ''K2'')" by simp_all
  have h5: "createDatabase world_D1 NoFault (Str ''U2'') (Str ''H2'') (Str ''D1'') (Str ''name2'') (Str ''K2'') Undefined
     = (fst (createDatabase world_D1 NoFault (Str ''U2'') (Str ''H2'') (Str ''D1'') (Str ''name2'') (Str ''K2'') Undefined),
        snd (createDatabase world_D1 NoFault (Str ''U2'') (Str ''H2'') (Str ''D1'') (Str ''name2'') (Str ''K2'') Undefined))"
    by simp
  have h5': "createDatabase world_D1 NoFault (Str ''U2'') (Str ''H2'') (Str ''D2'') (Str ''name2'') (Str ''K2'') Undefined
     = (fst (createDatabase world_D1 NoFault (Str ''U2'') (Str ''H2'') (Str ''D2'') (Str ''name2'') (Str ''K2'') Undefined),
        snd (createDatabase world_D1 NoFault (Str ''U2'') (Str ''H2'') (Str ''D2'') (Str ''name2'') (Str ''K2'') Undefined))"
    by simp
  have ex: "databaseTable world_D1 (Str ''D1'') \<noteq> None" by (simp add: world_D1_tables)
  have free: "databaseTable world_D1 (Str ''D2'') = None"
    "userDatabaseTable world_D1 (Str ''U2'', Str ''H2'') = None"
    by (simp_all add: world_D1_def createDatabase_def ddb_transactWrite_def conditional_write_def
          empty_world_def get_member_def memcache_initTransactionLog_def Let_def)
  from createDatabase_both_or_neither [OF h1 h2 h3 h4 h5] ex h1 h2 h3 h4
  have conflict: "fst (createDatabase world_D1 NoFault (Str ''U2'') (Str ''H2'') (Str ''D1'') (Str ''name2'') (Str ''K2'') Undefined)
       = errorResponse Conflict ''Database already exists''
   \<and> databaseTable (snd (createDatabase world_D1 NoFault (Str ''U2'') (Str ''H2'') (Str ''D1'') (Str ''name2'') (Str ''K2'') Undefined))
       = databaseTable world_D1
   \<and> userDatabaseTable (snd (createDatabase world_D1 NoFault (Str ''U2'') (Str ''H2'') (Str ''D1'') (Str ''name2'') (Str ''K2'') Undefined))
       = userDatabaseTable world_D1"
    by blast
  from createDatabase_both_or_neither [OF h1 h2' h3 h4 h5'] free
  have created: "fst (createDatabase world_D1 NoFault (Str ''U2'') (Str ''H2'') (Str ''D2'') (Str ''name2'') (Str ''K2'') Undefined)
       = successResponse (Str ''Success!'')
   \<and> databaseTable (snd (createDatabase world_D1 NoFault (Str ''U2'') (Str ''H2'') (Str ''D2'') (Str ''name2'') (Str ''K2'') Undefined))
       = (databaseTable world_D1)(Str ''D2'' \<mapsto>
            [(''database-id'', Str ''D2''), (''owner-id'', Str ''U2''),
             (''database-name'', Str ''name2''), (''metadata'', Undefined)])
   \<and> userDatabaseTable (snd (createDatabase world_D1 NoFault (Str ''U2'') (Str ''H2'') (Str ''D2'') (Str ''name2'') (Str ''K2'') Undefined))
       = (userDatabaseTable world_D1)((Str ''U2'', Str ''H2'') \<mapsto>
            [(''user-id'', Str ''U2''), (''database-name-hash'', Str ''H2''),
             (''database-id'', Str ''D2''), (''encrypted-db-key'', Str ''K2'')])"
    by blast
  then have changed: "databaseTable (snd (createDatabase world_D1 NoFault (Str ''U2'') (Str ''H2'') (Str ''D2'') (Str ''name2'') (Str ''K2'') Undefined))
        (Str ''D2'') \<noteq> databaseTable world_D1 (Str ''D2'')"
    using free by simp
  from conflict created changed ex free h1 h2 h2' h3 h4 show ?thesis by blast
qed

section \<open>Presence checks\<close>

lemma batch_loop_at:
  assumes "i < length xs"
  shows "batch_loop E (Arr xs) i ops =
     (if nullish (xs ! i) then Rejected (TypeError ''itemKey'' (xs ! i))
      else if \<not> truthy (get_prop (xs ! i) ''itemKey'')
      then Resolved (Inl (errorResponse Bad_Request
             (''Operation '' @ num_to_str E (Fin (of_nat i)) @ '' missing '' @ ''item key'')))
      else if \<not> truthy (get_prop (xs ! i) ''encryptedItem'')
      then Resolved (Inl (errorResponse Bad_Request
             (''Operation '' @ num_to_str E (Fin (of_nat i)) @ '' missing '' @ ''record'')))
      else if \<not> truthy (get_prop (xs ! i) ''command'')
      then Resolved (Inl (errorResponse Bad_Request
             (''Operation '' @ num_to_str E (Fin (of_nat i)) @ '' missing '' @ ''command'')))
      else batch_loop E (Arr xs) (Suc i)
             (ops @ [Obj [(''key'', get_prop (xs ! i) ''itemKey''),
                          (''record'', get_prop (xs ! i) ''encryptedItem''),
                          (''command'', get_prop (xs ! i) ''command'')]]))"
  using assms by (subst batch_loop.simps) simp

lemma batch_loop_stops:
  assumes "i \<le> j" and "j < length xs"
    and "nullish (xs ! j) \<or> \<not> truthy (get_prop (xs ! j) ''itemKey'')
         \<or> \<not> truthy (get_prop (xs ! j) ''encryptedItem'') \<or> \<not> truthy (get_prop (xs ! j) ''command'')"
  shows "(\<exists>k. i \<le> k \<and> k \<le> j \<and> nullish (xs ! k)
            \<and> batch_loop E (Arr xs) i ops = Rejected (TypeError ''itemKey'' (xs ! k)))
       \<or> (\<exists>k part. i \<le> k \<and> k \<le> j \<and> part \<in> {''item key'', ''record'', ''command''}
            \<and> batch_loop E (Arr xs) i ops =
                Resolved (Inl (errorResponse Bad_Request
                  (''Operation '' @ num_to_str E (Fin (of_nat k)) @ '' missing '' @ part))))"
  using assms(1)
proof (induction "j - i" arbitrary: i ops)
  case 0
  then have ij: "i = j" by simp
  show ?case
  proof (cases "nullish (xs ! j)")
    case True
    with ij assms(2) have "batch_loop E (Arr xs) i ops = Rejected (TypeError ''itemKey'' (xs ! j))"
      by (simp add: batch_loop_at)
    with True ij show ?thesis by blast
  next
    case False
    with assms(2,3) ij have "\<exists>part. part \<in> {''item key'', ''record'', ''command''}
            \<and> batch_loop E (Arr xs) i ops =
                Resolved (Inl (errorResponse Bad_Request
                  (''Operation '' @ num_to_str E (Fin (of_nat j)) @ '' missing '' @ part)))"
      by (simp add: batch_loop_at)
    with ij show ?thesis by blast
  qed
next
  case (Suc n)
  then have ij: "i < j" by simp
  with assms(2) have il: "i < length xs" by simp
  show ?case
  proof (cases "nullish (xs ! i)")
    case True
    with il have "batch_loop E (Arr xs) i ops = Rejected (TypeError ''itemKey'' (xs ! i))"
      by (simp add: batch_loop_at)
    with True ij show ?thesis by (intro disjI1 exI [of _ i]) simp
  next
    case nn: False
    show ?thesis
    proof (cases "truthy (get_prop (xs ! i) ''itemKey'') \<and> truthy (get_prop (xs ! i) ''encryptedItem'')
                  \<and> truthy (get_prop (xs ! i) ''command'')")
      case True
      with il nn have eq: "batch_loop E (Arr xs) i ops = batch_loop E (Arr xs) (Suc i)
              (ops @ [Obj [(''key'', get_prop (xs ! i) ''itemKey''),
                           (''record'', get_prop (xs ! i) ''encryptedItem''),
                           (''command'', get_prop (xs ! i) ''command'')]])"
        by (simp add: batch_loop_at)
      from Suc(2) ij have "n = j - Suc i" "Suc i \<le> j" by simp_all
      from Suc(1) [OF this, of "ops @ [Obj [(''key'', get_prop (xs ! i) ''itemKey''),
                           (''record'', get_prop (xs ! i) ''encryptedItem''),
                           (''command'', get_prop (xs ! i) ''command'')]]"]
      show ?thesis unfolding eq by (meson Suc_leD)
    next
      case False
      with il nn have "\<exists>part. part \<in> {''item key'', ''record'', ''command''}
            \<and> batch_loop E (Arr xs) i ops =
                Resolved (Inl (errorResponse Bad_Request
                  (''Operation '' @ num_to_str E (Fin (of_nat i)) @ '' missing '' @ part)))"
        by (auto simp: batch_loop_at)
      with ij show ?thesis by (intro disjI2 exI [of _ i]) simp
    qed
  qed
qed

text \<open>
  C9. The presence checks of \<^verbatim>\<open>doCommand\<close> and \<^verbatim>\<open>batch\<close> are truthiness tests. A
  call of \<^verbatim>\<open>doCommand\<close> whose \<open>databaseId\<close>, \<open>key\<close> or \<open>record\<close> is falsy (the empty
  string, 0, \<^verbatim>\<open>false\<close>, ...) returns a bad-request \<^verbatim>\<open>Missing ...\<close> and leaves the
  world as it is: no sequence number is assigned, nothing is written, no rollback is
  started. So does a call of \<^verbatim>\<open>batch\<close> whose \<open>databaseId\<close> is falsy, and a call of
  \<^verbatim>\<open>batch\<close> on an array with an operation whose \<^verbatim>\<open>itemKey\<close>, \<^verbatim>\<open>encryptedItem\<close> or
  \<^verbatim>\<open>command\<close> is falsy, when neither this operation nor one before it is \<^verbatim>\<open>null\<close> or
  \<^verbatim>\<open>undefined\<close>. An operation that is \<^verbatim>\<open>null\<close> or \<^verbatim>\<open>undefined\<close> is read outside the
  \<^verbatim>\<open>try\<close>: a call of \<^verbatim>\<open>batch\<close> on an array with such an operation, or with one that
  has a falsy field, returns a bad-request or throws the \<^verbatim>\<open>TypeError\<close> of reading
  \<^verbatim>\<open>itemKey\<close>, and in both cases leaves the world as it is.
\<close>

theorem falsy_fields_bad_request:
  "(\<not> truthy databaseId \<or> \<not> truthy key \<or> \<not> truthy record \<longrightarrow>
      (\<exists>m. m \<in> {''Missing database id'', ''Missing item key'', ''Missing record''}
         \<and> doCommand E w f command userId databaseId key record = (errorResponse Bad_Request m, w, None)))
   \<and> (\<not> truthy databaseId \<longrightarrow>
      batch E w f userId databaseId operations =
        (Resolved (errorResponse Bad_Request ''Missing database id''), w, None))
   \<and> (j < length xs \<and> (\<forall>k\<le>j. \<not> nullish (xs ! k))
       \<and> (\<not> truthy (get_prop (xs ! j) ''itemKey'') \<or> \<not> truthy (get_prop (xs ! j) ''encryptedItem'')
          \<or> \<not> truthy (get_prop (xs ! j) ''command'')) \<longrightarrow>
      (\<exists>m. (m = ''Missing database id''
              \<or> (\<exists>k part. k \<le> j \<and> part \<in> {''item key'', ''record'', ''command''}
                    \<and> m = ''Operation '' @ num_to_str E (Fin (of_nat k)) @ '' missing '' @ part))
         \<and> batch E w f userId databaseId (Arr xs) = (Resolved (errorResponse Bad_Request m), w, None)))
   \<and> (j < length xs
       \<and> (nullish (xs ! j) \<or> \<not> truthy (get_prop (xs ! j) ''itemKey'')
          \<or> \<not> truthy (get_prop (xs ! j) ''encryptedItem'') \<or> \<not> truthy (get_prop (xs ! j) ''command'')) \<longrightarrow>
      snd (batch E w f userId databaseId (Arr xs)) = (w, None)
      \<and> ((\<exists>m. fst (batch E w f userId databaseId (Arr xs)) = Resolved (errorResponse Bad_Request m))
         \<or> (\<exists>k\<le>j. nullish (xs ! k)
               \<and> fst (batch E w f userId databaseId (Arr xs)) = Rejected (TypeError ''itemKey'' (xs ! k)))))"
proof (intro conjI impI)
  assume "\<not> truthy databaseId \<or> \<not> truthy key \<or> \<not> truthy record"
  then show "\<exists>m. m \<in> {''Missing database id'', ''Missing item key'', ''Missing record''}
         \<and> doCommand E w f command userId databaseId key record = (errorResponse Bad_Request m, w, None)"
    by (auto simp: doCommand_def)
next
  assume "\<not> truthy databaseId"
  then show "batch E w f userId databaseId operations =
        (Resolved (errorResponse Bad_Request ''Missing database id''), w, None)"
    by (simp add: batch_def)
next
  assume a: "j < length xs \<and> (\<forall>k\<le>j. \<not> nullish (xs ! k))
       \<and> (\<not> truthy (get_prop (xs ! j) ''itemKey'') \<or> \<not> truthy (get_prop (xs ! j) ''encryptedItem'')
          \<or> \<not> truthy (get_prop (xs ! j) ''command''))"
  then have j: "j < length xs" and nn: "\<forall>k\<le>j. \<not> nullish (xs ! k)"
    and off: "nullish (xs ! j) \<or> \<not> truthy (get_prop (xs ! j) ''itemKey'')
         \<or> \<not> truthy (get_prop (xs ! j) ''encryptedItem'') \<or> \<not> truthy (get_prop (xs ! j) ''command'')"
    by auto
  from batch_loop_stops [OF _ j off, of 0 E "[]"] nn
  obtain k part where k: "k \<le> j" "part \<in> {''item key'', ''record'', ''command''}"
    and loop: "batch_loop E (Arr xs) 0 [] =
               Resolved (Inl (errorResponse Bad_Request
                 (''Operation '' @ num_to_str E (Fin (of_nat k)) @ '' missing '' @ part)))"
    by auto
  from j have ne: "truthy (Arr xs)" "truthy (js_length (Arr xs))" by auto
  show "\<exists>m. (m = ''Missing database id''
              \<or> (\<exists>k part. k \<le> j \<and> part \<in> {''item key'', ''record'', ''command''}
                    \<and> m = ''Operation '' @ num_to_str E (Fin (of_nat k)) @ '' missing '' @ part))
         \<and> batch E w f userId databaseId (Arr xs) = (Resolved (errorResponse Bad_Request m), w, None)"
  proof (cases "truthy databaseId")
    case False
    then show ?thesis by (simp add: batch_def)
  next
    case True
    with ne loop have "batch E w f userId databaseId (Arr xs) =
        (Resolved (errorResponse Bad_Request
           (''Operation '' @ num_to_str E (Fin (of_nat k)) @ '' missing '' @ part)), w, None)"
      by (simp add: batch_def)
    with k show ?thesis by blast
  qed
next
  assume a: "j < length xs
       \<and> (nullish (xs ! j) \<or> \<not> truthy (get_prop (xs ! j) ''itemKey'')
          \<or> \<not> truthy (get_prop (xs ! j) ''encryptedItem'') \<or> \<not> truthy (get_prop (xs ! j) ''command''))"
  then have j: "j < length xs"
    and off: "nullish (xs ! j) \<or> \<not> truthy (get_prop (xs ! j) ''itemKey'')
         \<or> \<not> truthy (get_prop (xs ! j) ''encryptedItem'') \<or> \<not> truthy (get_prop (xs ! j) ''command'')"
    by auto
  from j have ne: "truthy (Arr xs)" "truthy (js_length (Arr xs))" by auto
  show "snd (batch E w f userId databaseId (Arr xs)) = (w, None)"
  proof (cases "truthy databaseId")
    case False
    then show ?thesis by (simp add: batch_def)
  next
    case True
    from batch_loop_stops [OF _ j off, of 0 E "[]"] True ne show ?thesis
      by (auto simp: batch_def)
  qed
  show "(\<exists>m. fst (batch E w f userId databaseId (Arr xs)) = Resolved (errorResponse Bad_Request m))
         \<or> (\<exists>k\<le>j. nullish (xs ! k)
               \<and> fst (batch E w f userId databaseId (Arr xs)) = Rejected (TypeError ''itemKey'' (xs ! k)))"
  proof (cases "truthy databaseId")
    case False
    then show ?thesis by (simp add: batch_def)
  next
    case True
    from batch_loop_stops [OF _ j off, of 0 E "[]"]
    consider (typeerror) k where "k \<le> j" "nullish (xs ! k)"
        "batch_loop E (Arr xs) 0 [] = Rejected (TypeError ''itemKey'' (xs ! k))"
      | (missing) m where "batch_loop E (Arr xs) 0 [] = Resolved (Inl (errorResponse Bad_Request m))"
      by auto
    then show ?thesis
    proof cases
      case typeerror
      with True ne have "fst (batch E w f userId databaseId (Arr xs)) = Rejected (TypeError ''itemKey'' (xs ! k))"
        by (simp add: batch_def)
      with typeerror(1,2) show ?thesis by blast
    next
      case missing
      with True ne have "fst (batch E w f userId databaseId (Arr xs)) = Resolved (errorResponse Bad_Request m)"
        by (simp add: batch_def)
      then show ?thesis by blast
    qed
  qed
qed

theorem falsy_fields_bad_request_witness:
  "\<not> truthy (Str [])
   \<and> doCommand node world_D1 NoFault (Str ''Insert'') (Str ''U1'') (Str ''D1'') (Str []) (Str ''r1'')
       = (errorResponse Bad_Request ''Missing item key'', world_D1, None)
   \<and> \<not> truthy (Num (Fin 0))
   \<and> batch node world_D1 NoFault (Str ''U1'') (Num (Fin 0)) (Arr [])
       = (Resolved (errorResponse Bad_Request ''Missing database id''), world_D1, None)
   \<and> (0::nat) < length [Obj [(''itemKey'', Str ''k''), (''encryptedItem'', Bool False), (''command'', Str ''Insert'')]]
   \<and> \<not> nullish (Obj [(''itemKey'', Str ''k''), (''encryptedItem'', Bool False), (''command'', Str ''Insert'')])
   \<and> \<not> truthy (get_prop (Obj [(''itemKey'', Str ''k''), (''encryptedItem'', Bool False), (''command'', Str ''Insert'')])
                  ''encryptedItem'')
   \<and> batch node world_D1 NoFault (Str ''U1'') (Str ''D1'')
        (Arr [Obj [(''itemKey'', Str ''k''), (''encryptedItem'', Bool False), (''command'', Str ''Insert'')]])
       = (Resolved (errorResponse Bad_Request ''Operation 0 missing record''), world_D1, None)
   \<and> (1::nat) < length [Obj [(''itemKey'', Str ''k''), (''encryptedItem'', Str ''r1''), (''command'', Str ''Insert'')],
                         Null]
   \<and> nullish ([Obj [(''itemKey'', Str ''k''), (''encryptedItem'', Str ''r1''), (''command'', Str ''Insert'')],
                Null] ! 1)
   \<and> snd (batch node world_D1 NoFault (Str ''U1'') (Str ''D1'')
        (Arr [Obj [(''itemKey'', Str ''k''), (''encryptedItem'', Str ''r1''), (''command'', Str ''Insert'')],
              Null]))
       = (world_D1, None)
   \<and> fst (batch node world_D1 NoFault (Str ''U1'') (Str ''D1'')
        (Arr [Obj [(''itemKey'', Str ''k''), (''encryptedItem'', Str ''r1''), (''command'', Str ''Insert'')],
              Null]))
       = Rejected (TypeError ''itemKey'' Null)"
proof -
  let ?op = "Obj [(''itemKey'', Str ''k''), (''encryptedItem'', Bool False), (''command'', Str ''Insert'')]"
  let ?ok = "Obj [(''itemKey'', Str ''k''), (''encryptedItem'', Str ''r1''), (''command'', Str ''Insert'')]"
  have h1: "\<not> truthy (Str [])" and h2: "\<not> truthy (Num (Fin 0))" by simp_all
  have h3: "\<not> nullish ?op" by (simp add: nullish_def)
  have h4: "\<not> truthy (get_prop ?op ''encryptedItem'')" by (simp add: get_member_def)
  have h5: "(0::nat) < length [?op]" and h6: "(1::nat) < length [?ok, Null]" by simp_all
  have h7: "nullish ([?ok, Null] ! 1)" by (simp add: nullish_def)
  note T1 = falsy_fields_bad_request [of "Str ''D1''" "Str []" "Str ''r1''" node world_D1 NoFault "Str ''Insert''"
      "Str ''U1''" "Arr []" 0 "[]"]
  note T2 = falsy_fields_bad_request [of "Num (Fin 0)" "Str ''k''" "Str ''r1''" node world_D1 NoFault "Str ''Insert''"
      "Str ''U1''" "Arr []" 0 "[]"]
  note T3 = falsy_fields_bad_request [of "Str ''D1''" "Str ''k''" "Str ''r1''" node world_D1 NoFault "Str ''Insert''"
      "Str ''U1''" "Arr []" 0 "[?op]"]
  note T4 = falsy_fields_bad_request [of "Str ''D1''" "Str ''k''" "Str ''r1''" node world_D1 NoFault "Str ''Insert''"
      "Str ''U1''" "Arr []" 1 "[?ok, Null]"]
  from T1 h1 have c1: "doCommand node world_D1 NoFault (Str ''Insert'') (Str ''U1'') (Str ''D1'') (Str []) (Str ''r1'')
       = (errorResponse Bad_Request ''Missing item key'', world_D1, None)"
    by (simp add: doCommand_def)
  from T2 h2 have c2: "batch node world_D1 NoFault (Str ''U1'') (Num (Fin 0)) (Arr [])
       = (Resolved (errorResponse Bad_Request ''Missing database id''), world_D1, None)"
    by simp
  from T3 h3 h4 have "\<exists>m. batch node world_D1 NoFault (Str ''U1'') (Str ''D1'') (Arr [?op])
       = (Resolved (errorResponse Bad_Request m), world_D1, None)"
    by auto
  then have c3: "batch node world_D1 NoFault (Str ''U1'') (Str ''D1'') (Arr [?op])
       = (Resolved (errorResponse Bad_Request ''Operation 0 missing record''), world_D1, None)"
    by (simp add: batch_def batch_loop.simps nullish_def get_member_def node_def decimal_def digits.simps)
  from T4 h6 h7 have c4: "snd (batch node world_D1 NoFault (Str ''U1'') (Str ''D1'') (Arr [?ok, Null]))
       = (world_D1, None)"
    by blast
  have c5: "fst (batch node world_D1 NoFault (Str ''U1'') (Str ''D1'') (Arr [?ok, Null]))
       = Rejected (TypeError ''itemKey'' Null)"
    by (simp add: batch_def batch_loop.simps nullish_def get_member_def)
  from h1 h2 h3 h4 h5 h6 h7 c1 c2 c3 c4 c5 show ?thesis by blast
qed

text \<open>
  An operation that is \<^verbatim>\<open>null\<close> before one with an empty \<^verbatim>\<open>itemKey\<close>: the call does
  not return a bad-request, it throws.
\<close>

theorem falsy_fields_bad_request_counterexample:
  "\<not> truthy (get_prop (Obj [(''itemKey'', Str []), (''encryptedItem'', Str ''r1''), (''command'', Str ''Insert'')])
                ''itemKey'')
   \<and> batch node world_D1 NoFault (Str ''U1'') (Str ''D1'')
        (Arr [Null, Obj [(''itemKey'', Str []), (''encryptedItem'', Str ''r1''), (''command'', Str ''Insert'')]])
       = (Rejected (TypeError ''itemKey'' Null), world_D1, None)"
  by (simp add: batch_def batch_loop.simps nullish_def get_member_def)

end
